theory Spec2Isabelle
  imports Main "HOL-Library.Multiset"
begin

section \<open>Data model\<close>

text \<open>
  The tasks of \<^verbatim>\<open>pkg/internal/infrastructure/tasks_advanced_dhcp.go\<close> drive the NSX-T
  "Advanced API" objects of a DHCP service. The remote objects are Go structs of the
  client library; each is a record here. Go allows the same field name in several
  structs, records do not, so a field \<^verbatim>\<open>DisplayName\<close> of \<^verbatim>\<open>manager.DhcpProfile\<close> is
  \<open>prof_DisplayName\<close>, of \<^verbatim>\<open>manager.LogicalDhcpServer\<close> is \<open>srv_DisplayName\<close>, and so on.
  Only the fields that the tasks read or write are kept.
\<close>

record common_Tag =
  Scope :: string
  Tag :: string

record EdgeCluster =
  ec_Id :: string
  ec_DisplayName :: string

record DhcpProfile =
  prof_Id :: string
  prof_DisplayName :: string
  prof_Description :: string
  prof_EdgeClusterId :: string
  prof_Tags :: "common_Tag list"

record IPv4DhcpServer =
  DhcpServerIp :: string
  DnsNameservers :: "string list"
  GatewayIp :: string

record LogicalDhcpServer =
  srv_Id :: string
  srv_Description :: string
  srv_DisplayName :: string
  srv_Tags :: "common_Tag list"
  srv_DhcpProfileId :: string
  srv_Ipv4DhcpServer :: "IPv4DhcpServer option"

record LogicalSwitch =
  ls_Id :: string
  ls_Tags :: "common_Tag list"

record LogicalPortAttachment =
  AttachmentType :: string
  att_Id :: string

record LogicalPort =
  port_Id :: string
  port_DisplayName :: string
  port_Description :: string
  port_LogicalSwitchId :: string
  port_AdminState :: string
  port_Tags :: "common_Tag list"
  port_Attachment :: "LogicalPortAttachment option"

record IpPoolRange =
  range_Start :: string
  range_End :: string

record DhcpIpPool =
  pool_Id :: string
  pool_DisplayName :: string
  pool_Description :: string
  pool_GatewayIp :: string
  pool_LeaseTime :: int
  pool_ErrorThreshold :: int
  pool_WarningThreshold :: int
  pool_AllocationRanges :: "IpPoolRange list"
  pool_Tags :: "common_Tag list"

text \<open>
  \<^verbatim>\<open>NSXTInfraState\<close>: every identifier is a \<^verbatim>\<open>*string\<close>, \<open>None\<close> being the nil pointer.
\<close>

record AdvancedDHCPState =
  EdgeClusterID :: "string option"
  ProfileID :: "string option"
  ServerID :: "string option"
  LogicalSwitchID :: "string option"
  PortID :: "string option"
  IPPoolID :: "string option"

record NSXTInfraState =
  SegmentRef_Path :: string
  AdvancedDHCP :: AdvancedDHCPState

text \<open>
  \<^verbatim>\<open>NSXTInfraSpec\<close>. The methods \<^verbatim>\<open>FullClusterName()\<close> and \<^verbatim>\<open>createCommonTags()\<close> are
  declared outside the file; the tasks only use their results, which are carried as the
  fields \<open>FullClusterName\<close> and \<open>createCommonTags\<close>.
\<close>

record NSXTInfraSpec =
  EdgeClusterName :: string
  WorkersNetwork :: string
  DNSServers :: "string list"
  FullClusterName :: string
  createCommonTags :: "common_Tag list"

subsection \<open>Errors, panics and HTTP responses\<close>

text \<open>
  A Go \<^verbatim>\<open>error\<close> is a value of \<open>error\<close>; the nil error is \<open>None :: error option\<close>.
  \<open>ClientError\<close> is an error handed back by the NSX-T client, \<open>readingErr\<close>,
  \<open>updatingErr\<close> and \<open>creatingErr\<close> are the wrappers the tasks call,
  \<open>UnexpectedStatus op code\<close> is
  \<^verbatim>\<open>fmt.Errorf("<op> failed with unexpected HTTP status code %d", code)\<close>,
  \<open>NotFoundByName\<close> and \<open>NotFoundBySegmentPath\<close> are the two lookup failures,
  \<open>Wrapf\<close> is \<^verbatim>\<open>errors.Wrapf\<close>, and \<open>AddressError\<close> is a failed address derivation.
\<close>

datatype error =
    ClientError string
  | readingErr error
  | updatingErr error
  | creatingErr error
  | UnexpectedStatus string int
  | NotFoundByName string
  | NotFoundBySegmentPath string
  | AddressError string
  | Wrapf error string

text \<open>
  A Go function either returns or panics; the only panic of these tasks is the
  dereference of a nil pointer.
\<close>

datatype 'a go = Return 'a | Panic

record Response =
  StatusCode :: int

definition StatusOK :: int where "StatusOK = 200"
definition StatusCreated :: int where "StatusCreated = 201"
definition StatusNotFound :: int where "StatusNotFound = 404"

subsection \<open>The remote client\<close>

text \<open>
  The ensurer holds the NSX-T client. Each API method answers with the object, the
  \<^verbatim>\<open>*http.Response\<close> (\<open>None\<close> is nil) and the error (\<open>None\<close> is nil). The package
  constant \<^verbatim>\<open>description\<close> is declared outside the file and is carried here as well.
  Every call a task issues is appended to a log, so that "issues no call" is a statement
  about the log.
\<close>

record ensurer =
  description :: string
  ListEdgeClusters :: "EdgeCluster list \<times> Response option \<times> error option"
  ReadDhcpProfile :: "string \<Rightarrow> DhcpProfile \<times> Response option \<times> error option"
  UpdateDhcpProfile :: "string \<Rightarrow> DhcpProfile \<Rightarrow> DhcpProfile \<times> Response option \<times> error option"
  CreateDhcpProfile :: "DhcpProfile \<Rightarrow> DhcpProfile \<times> Response option \<times> error option"
  DeleteDhcpProfile :: "string \<Rightarrow> Response option \<times> error option"
  ReadDhcpServer :: "string \<Rightarrow> LogicalDhcpServer \<times> Response option \<times> error option"
  UpdateDhcpServer :: "string \<Rightarrow> LogicalDhcpServer \<Rightarrow> LogicalDhcpServer \<times> Response option \<times> error option"
  CreateDhcpServer :: "LogicalDhcpServer \<Rightarrow> LogicalDhcpServer \<times> Response option \<times> error option"
  DeleteDhcpServer :: "string \<Rightarrow> Response option \<times> error option"
  ListLogicalSwitches :: "LogicalSwitch list \<times> Response option \<times> error option"
  GetLogicalPort :: "string \<Rightarrow> LogicalPort \<times> Response option \<times> error option"
  UpdateLogicalPort :: "string \<Rightarrow> LogicalPort \<Rightarrow> LogicalPort \<times> Response option \<times> error option"
  CreateLogicalPort :: "LogicalPort \<Rightarrow> LogicalPort \<times> Response option \<times> error option"
  DeleteLogicalPort :: "string \<Rightarrow> bool \<Rightarrow> Response option \<times> error option"
  ReadDhcpIpPool :: "string \<Rightarrow> string \<Rightarrow> DhcpIpPool \<times> Response option \<times> error option"
  UpdateDhcpIpPool :: "string \<Rightarrow> string \<Rightarrow> DhcpIpPool \<Rightarrow> DhcpIpPool \<times> Response option \<times> error option"
  CreateDhcpIpPool :: "string \<Rightarrow> DhcpIpPool \<Rightarrow> DhcpIpPool \<times> Response option \<times> error option"
  DeleteDhcpIpPool :: "string \<Rightarrow> string \<Rightarrow> Response option \<times> error option"

datatype call =
    CallListEdgeClusters
  | CallReadDhcpProfile string
  | CallUpdateDhcpProfile string DhcpProfile
  | CallCreateDhcpProfile DhcpProfile
  | CallDeleteDhcpProfile string
  | CallReadDhcpServer string
  | CallUpdateDhcpServer string LogicalDhcpServer
  | CallCreateDhcpServer LogicalDhcpServer
  | CallDeleteDhcpServer string
  | CallListLogicalSwitches
  | CallGetLogicalPort string
  | CallUpdateLogicalPort string LogicalPort
  | CallCreateLogicalPort LogicalPort
  | CallDeleteLogicalPort string bool
  | CallReadDhcpIpPool string string
  | CallUpdateDhcpIpPool string string DhcpIpPool
  | CallCreateDhcpIpPool string DhcpIpPool
  | CallDeleteDhcpIpPool string string

text \<open>\<^verbatim>\<open>resp != nil && resp.StatusCode == http.StatusNotFound\<close>\<close>

definition respNotFound :: "Response option \<Rightarrow> bool" where
  "respNotFound resp = (case resp of None \<Rightarrow> False | Some r \<Rightarrow> StatusCode r = StatusNotFound)"

section \<open>Tag comparison\<close>

text \<open>
  \<^verbatim>\<open>equalCommonTags\<close>: the length test, then for every tag of \<open>a\<close> a linear search in
  \<open>b\<close>. \<open>findTag\<close> is the inner loop (it stops at the first hit), \<open>allFound\<close> the outer
  one (it stops at the first tag that is not found).
\<close>

fun findTag :: "common_Tag \<Rightarrow> common_Tag list \<Rightarrow> bool" where
  "findTag ai [] = False"
| "findTag ai (bi # bs) = (if Scope ai = Scope bi \<and> Tag ai = Tag bi then True else findTag ai bs)"

fun allFound :: "common_Tag list \<Rightarrow> common_Tag list \<Rightarrow> bool" where
  "allFound [] b = True"
| "allFound (ai # as) b = (if \<not> findTag ai b then False else allFound as b)"

definition equalCommonTags :: "common_Tag list \<Rightarrow> common_Tag list \<Rightarrow> bool" where
  "equalCommonTags a b = (if length a \<noteq> length b then False else allFound a b)"

section \<open>References\<close>

text \<open>
  Modelled from the spec: \<^verbatim>\<open>Reference\<close> and \<^verbatim>\<open>toReference\<close> are declared outside the file.
  The spec gives a Reference as \<^verbatim>\<open>{id: optional string}\<close> whose absence means "not yet
  created": \<open>toReference\<close> of the nil pointer is the nil Reference, and of an identifier
  the Reference holding it.
\<close>

record Reference =
  ID :: string

text \<open>
  Modelled from the spec: \<^verbatim>\<open>toReference\<close> (declared outside the file) turns the optional
  identifier into the optional Reference.
\<close>

definition toReference :: "string option \<Rightarrow> Reference option" where
  "toReference s = (case s of None \<Rightarrow> None | Some v \<Rightarrow> Some \<lparr>ID = v\<rparr>)"

definition advancedLookupEdgeClusterTask_reference :: "NSXTInfraState \<Rightarrow> Reference option" where
  "advancedLookupEdgeClusterTask_reference state = toReference (EdgeClusterID (AdvancedDHCP state))"

definition advancedDHCPProfileTask_reference :: "NSXTInfraState \<Rightarrow> Reference option" where
  "advancedDHCPProfileTask_reference state = toReference (PortID (AdvancedDHCP state))"

definition advancedDHCPServerTask_reference :: "NSXTInfraState \<Rightarrow> Reference option" where
  "advancedDHCPServerTask_reference state = toReference (ServerID (AdvancedDHCP state))"

definition advancedLookupLogicalSwitchTask_reference :: "NSXTInfraState \<Rightarrow> Reference option" where
  "advancedLookupLogicalSwitchTask_reference state = toReference (LogicalSwitchID (AdvancedDHCP state))"

definition advancedDHCPPortTask_reference :: "NSXTInfraState \<Rightarrow> Reference option" where
  "advancedDHCPPortTask_reference state = toReference (PortID (AdvancedDHCP state))"

definition advancedDHCPIPPoolTask_reference :: "NSXTInfraState \<Rightarrow> Reference option" where
  "advancedDHCPIPPoolTask_reference state = toReference (IPPoolID (AdvancedDHCP state))"

section \<open>Address derivation\<close>

text \<open>
  Modelled from the spec: \<^verbatim>\<open>cidrHost\<close> and \<^verbatim>\<open>cidrHostAndPrefix\<close> are called by the tasks
  but declared outside the file. The spec: "gateway = host offset 1; DHCP server address =
  host offset 2; pool start = host offset 10; pool end = the last usable host (highest
  assignable address, i.e. offset -1 from the broadcast address). Fails with an
  address-computation error if the subnet cannot hold these offsets". So a host number
  \<open>n \<ge> 0\<close> counts up from the network address and a negative one counts down from the
  broadcast address. An IPv4 address is the number \<open>((a * 256 + b) * 256 + c) * 256 + d\<close>.
\<close>

definition digitVal :: "char \<Rightarrow> nat option" where
  "digitVal c = (let n = (of_char c :: nat) in if 48 \<le> n \<and> n \<le> 57 then Some (n - 48) else None)"

fun parseNatAcc :: "string \<Rightarrow> nat \<Rightarrow> nat option" where
  "parseNatAcc [] acc = Some acc"
| "parseNatAcc (c # cs) acc =
     (case digitVal c of None \<Rightarrow> None | Some d \<Rightarrow> parseNatAcc cs (10 * acc + d))"

definition parseNat :: "string \<Rightarrow> nat option" where
  "parseNat s = (if s = [] then None else parseNatAcc s 0)"

fun splitOn :: "char \<Rightarrow> string \<Rightarrow> string list" where
  "splitOn sep [] = [[]]"
| "splitOn sep (c # cs) =
     (if c = sep then [] # splitOn sep cs
      else (case splitOn sep cs of [] \<Rightarrow> [[c]] | w # ws \<Rightarrow> (c # w) # ws))"

definition parseIPv4 :: "string \<Rightarrow> nat option" where
  "parseIPv4 s =
     (case map parseNat (splitOn (CHR ''.'') s) of
        [Some a, Some b, Some c, Some d] \<Rightarrow>
          (if a \<le> 255 \<and> b \<le> 255 \<and> c \<le> 255 \<and> d \<le> 255
           then Some (((a * 256 + b) * 256 + c) * 256 + d) else None)
      | _ \<Rightarrow> None)"

text \<open>The network address (host bits cleared) and the prefix length.\<close>

definition parseCIDR :: "string \<Rightarrow> (nat \<times> nat) option" where
  "parseCIDR s =
     (case splitOn (CHR ''/'') s of
        [addr, pre] \<Rightarrow>
          (case parseIPv4 addr of
             None \<Rightarrow> None
           | Some ip \<Rightarrow>
               (case parseNat pre of
                  None \<Rightarrow> None
                | Some p \<Rightarrow> if p \<le> 32 then Some (ip - ip mod 2 ^ (32 - p), p) else None))
      | _ \<Rightarrow> None)"

definition digitChar :: "nat \<Rightarrow> char" where
  "digitChar d = ''0123456789'' ! d"

text \<open>Decimal text of a number below 1000 (an octet or a prefix length).\<close>

definition showNat :: "nat \<Rightarrow> string" where
  "showNat n =
     (if n < 10 then [digitChar n]
      else if n < 100 then [digitChar (n div 10), digitChar (n mod 10)]
      else [digitChar (n div 100 mod 10), digitChar (n div 10 mod 10), digitChar (n mod 10)])"

definition formatIPv4 :: "nat \<Rightarrow> string" where
  "formatIPv4 ip =
     showNat (ip div 16777216 mod 256) @ ''.'' @ showNat (ip div 65536 mod 256) @ ''.'' @
     showNat (ip div 256 mod 256) @ ''.'' @ showNat (ip mod 256)"

definition hostAddress :: "nat \<times> nat \<Rightarrow> int \<Rightarrow> nat option" where
  "hostAddress net n =
     (case net of (base, p) \<Rightarrow>
        (let size = (2::nat) ^ (32 - p) in
         if 0 \<le> n then (if nat n < size then Some (base + nat n) else None)
         else (if nat (- n) < size then Some (base + size - 1 - nat (- n)) else None)))"

text \<open>
  Modelled from the spec: \<^verbatim>\<open>cidrHost(cidr, n)\<close> (declared outside the file) is the address
  of host number \<open>n\<close> in the subnet, or the address-computation error when the subnet is
  malformed or cannot hold the offset.
\<close>

definition cidrHost :: "string \<Rightarrow> int \<Rightarrow> error + string" where
  "cidrHost cidr n =
     (case parseCIDR cidr of
        None \<Rightarrow> Inl (AddressError ''invalid CIDR'')
      | Some net \<Rightarrow>
          (case hostAddress net n of
             None \<Rightarrow> Inl (AddressError ''host number does not fit the subnet'')
           | Some ip \<Rightarrow> Inr (formatIPv4 ip)))"

text \<open>
  Modelled from the spec: \<^verbatim>\<open>cidrHostAndPrefix(cidr, n)\<close> (declared outside the file) is the
  same address followed by the subnet's prefix length, as in \<^verbatim>\<open>10.0.0.2/24\<close>.
\<close>

definition cidrHostAndPrefix :: "string \<Rightarrow> int \<Rightarrow> error + string" where
  "cidrHostAndPrefix cidr n =
     (case parseCIDR cidr of
        None \<Rightarrow> Inl (AddressError ''invalid CIDR'')
      | Some net \<Rightarrow>
          (case hostAddress net n of
             None \<Rightarrow> Inl (AddressError ''host number does not fit the subnet'')
           | Some ip \<Rightarrow> Inr (formatIPv4 ip @ ''/'' @ showNat (snd net))))"

text \<open>
  Modelled from the spec: \<^verbatim>\<open>equalOrderedStrings\<close> is declared outside the file. The spec
  has ordered lists such as the DNS servers "compared positionally": same length and the
  same string at every position.
\<close>

fun equalOrderedStrings :: "string list \<Rightarrow> string list \<Rightarrow> bool" where
  "equalOrderedStrings [] [] = True"
| "equalOrderedStrings (x # xs) (y # ys) = (if x \<noteq> y then False else equalOrderedStrings xs ys)"
| "equalOrderedStrings _ _ = False"

section \<open>The tasks\<close>

text \<open>
  Every \<^verbatim>\<open>Ensure\<close> takes the ensurer, the spec, the state and the log of the calls issued
  so far, and gives back what the Go method returns (\<open>Return None\<close> is the nil error,
  \<open>Panic\<close> a nil dereference), the state as the method leaves it, and the extended log.
  An argument \<^verbatim>\<open>*state.AdvancedDHCP.X\<close> is evaluated before the call it is passed to, so a
  nil \<^verbatim>\<open>X\<close> panics with the call not issued. After a successful call with \<^verbatim>\<open>err == nil\<close>
  the methods read \<^verbatim>\<open>resp.StatusCode\<close> without a nil test, which panics on a nil response.
\<close>

subsection \<open>Edge cluster lookup\<close>

fun findEdgeCluster :: "string \<Rightarrow> EdgeCluster list \<Rightarrow> string option" where
  "findEdgeCluster name [] = None"
| "findEdgeCluster name (obj # objs) =
     (if ec_DisplayName obj = name then Some (ec_Id obj) else findEdgeCluster name objs)"

definition advancedLookupEdgeClusterTask_Ensure ::
  "ensurer \<Rightarrow> NSXTInfraSpec \<Rightarrow> NSXTInfraState \<Rightarrow> call list
     \<Rightarrow> error option go \<times> NSXTInfraState \<times> call list" where
  "advancedLookupEdgeClusterTask_Ensure a spec state log =
     (let name = EdgeClusterName spec in
      case ListEdgeClusters a of (objList, _, err) \<Rightarrow>
        (let log1 = log @ [CallListEdgeClusters] in
         case err of
           Some e \<Rightarrow> (Return (Some e), state, log1)
         | None \<Rightarrow>
             (case findEdgeCluster name objList of
                Some i \<Rightarrow>
                  (Return None,
                   state\<lparr>AdvancedDHCP := (AdvancedDHCP state)\<lparr>EdgeClusterID := Some i\<rparr>\<rparr>, log1)
              | None \<Rightarrow> (Return (Some (NotFoundByName name)), state, log1))))"

subsection \<open>DHCP profile\<close>

function advancedDHCPProfileTask_Ensure ::
  "ensurer \<Rightarrow> NSXTInfraSpec \<Rightarrow> NSXTInfraState \<Rightarrow> call list
     \<Rightarrow> error option go \<times> NSXTInfraState \<times> call list" where
  "advancedDHCPProfileTask_Ensure a spec state log =
     (case EdgeClusterID (AdvancedDHCP state) of
        None \<Rightarrow> (Panic, state, log)
      | Some ecid \<Rightarrow>
        (let profile = \<lparr>prof_Id = [], prof_DisplayName = FullClusterName spec,
                        prof_Description = description a, prof_EdgeClusterId = ecid,
                        prof_Tags = createCommonTags spec\<rparr> in
         case ProfileID (AdvancedDHCP state) of
           Some pid \<Rightarrow>
             (case ReadDhcpProfile a pid of (oldProfile, resp, err) \<Rightarrow>
                (let log1 = log @ [CallReadDhcpProfile pid] in
                 if respNotFound resp then
                   advancedDHCPProfileTask_Ensure a spec
                     (state\<lparr>AdvancedDHCP := (AdvancedDHCP state)\<lparr>ProfileID := None\<rparr>\<rparr>) log1
                 else case err of
                   Some e \<Rightarrow> (Return (Some (readingErr e)), state, log1)
                 | None \<Rightarrow>
                     if prof_DisplayName oldProfile \<noteq> prof_DisplayName profile \<or>
                        prof_EdgeClusterId oldProfile \<noteq> prof_EdgeClusterId profile \<or>
                        \<not> equalCommonTags (prof_Tags oldProfile) (prof_Tags profile)
                     then
                       (case UpdateDhcpProfile a pid profile of (_, resp, err) \<Rightarrow>
                          (let log2 = log1 @ [CallUpdateDhcpProfile pid profile] in
                           case err of
                             Some e \<Rightarrow> (Return (Some (updatingErr e)), state, log2)
                           | None \<Rightarrow>
                               (case resp of
                                  None \<Rightarrow> (Panic, state, log2)
                                | Some r \<Rightarrow>
                                    if StatusCode r \<noteq> StatusOK
                                    then (Return (Some (UnexpectedStatus ''updating'' (StatusCode r))),
                                          state, log2)
                                    else (Return None, state, log2))))
                     else (Return None, state, log1)))
         | None \<Rightarrow>
             (case CreateDhcpProfile a profile of (createdProfile, resp, err) \<Rightarrow>
                (let log1 = log @ [CallCreateDhcpProfile profile] in
                 case err of
                   Some e \<Rightarrow> (Return (Some (creatingErr e)), state, log1)
                 | None \<Rightarrow>
                     (case resp of
                        None \<Rightarrow> (Panic, state, log1)
                      | Some r \<Rightarrow>
                          if StatusCode r \<noteq> StatusCreated
                          then (Return (Some (UnexpectedStatus ''creating'' (StatusCode r))),
                                state, log1)
                          else (Return None,
                                state\<lparr>AdvancedDHCP :=
                                  (AdvancedDHCP state)\<lparr>ProfileID := Some (prof_Id createdProfile)\<rparr>\<rparr>,
                                log1))))))"
  by pat_completeness auto
termination
  by (relation "measure (\<lambda>(a, spec, state, log).
        case ProfileID (AdvancedDHCP state) of None \<Rightarrow> 0 | Some _ \<Rightarrow> 1)") auto

declare advancedDHCPProfileTask_Ensure.simps [simp del]

definition advancedDHCPProfileTask_EnsureDeleted ::
  "ensurer \<Rightarrow> NSXTInfraSpec \<Rightarrow> NSXTInfraState \<Rightarrow> call list
     \<Rightarrow> (bool \<times> error option) go \<times> NSXTInfraState \<times> call list" where
  "advancedDHCPProfileTask_EnsureDeleted a spec state log =
     (case ProfileID (AdvancedDHCP state) of
        None \<Rightarrow> (Return (False, None), state, log)
      | Some pid \<Rightarrow>
          (case DeleteDhcpProfile a pid of (resp, err) \<Rightarrow>
             (let log1 = log @ [CallDeleteDhcpProfile pid] in
              if respNotFound resp then
                (Return (False, None),
                 state\<lparr>AdvancedDHCP := (AdvancedDHCP state)\<lparr>ProfileID := None\<rparr>\<rparr>, log1)
              else case err of
                Some e \<Rightarrow> (Return (False, Some e), state, log1)
              | None \<Rightarrow>
                  (Return (True, None),
                   state\<lparr>AdvancedDHCP := (AdvancedDHCP state)\<lparr>ProfileID := None\<rparr>\<rparr>, log1))))"

subsection \<open>DHCP server\<close>

function advancedDHCPServerTask_Ensure ::
  "ensurer \<Rightarrow> NSXTInfraSpec \<Rightarrow> NSXTInfraState \<Rightarrow> call list
     \<Rightarrow> error option go \<times> NSXTInfraState \<times> call list" where
  "advancedDHCPServerTask_Ensure a spec state log =
     (case cidrHostAndPrefix (WorkersNetwork spec) 2 of
        Inl err \<Rightarrow> (Return (Some (Wrapf err ''DHCP server IP'')), state, log)
      | Inr dhcpServerIP \<Rightarrow>
     (case cidrHost (WorkersNetwork spec) 1 of
        Inl err \<Rightarrow> (Return (Some (Wrapf err ''gateway IP'')), state, log)
      | Inr gatewayIP \<Rightarrow>
     (let ipv4DhcpServer = \<lparr>DhcpServerIp = dhcpServerIP, DnsNameservers = DNSServers spec,
                             GatewayIp = gatewayIP\<rparr> in
      case ProfileID (AdvancedDHCP state) of
        None \<Rightarrow> (Panic, state, log)
      | Some profileId \<Rightarrow>
        (let server = \<lparr>srv_Id = [], srv_Description = description a,
                       srv_DisplayName = FullClusterName spec, srv_Tags = createCommonTags spec,
                       srv_DhcpProfileId = profileId,
                       srv_Ipv4DhcpServer = Some ipv4DhcpServer\<rparr> in
         case ServerID (AdvancedDHCP state) of
           Some sid \<Rightarrow>
             (case ReadDhcpServer a sid of (oldServer, resp, err) \<Rightarrow>
                (let log1 = log @ [CallReadDhcpServer sid] in
                 if respNotFound resp then
                   advancedDHCPServerTask_Ensure a spec
                     (state\<lparr>AdvancedDHCP := (AdvancedDHCP state)\<lparr>ServerID := None\<rparr>\<rparr>) log1
                 else case err of
                   Some e \<Rightarrow> (Return (Some (readingErr e)), state, log1)
                 | None \<Rightarrow>
                     if srv_DisplayName oldServer \<noteq> srv_DisplayName server \<or>
                        srv_DhcpProfileId oldServer \<noteq> srv_DhcpProfileId server \<or>
                        (case srv_Ipv4DhcpServer oldServer of
                           None \<Rightarrow> True
                         | Some old4 \<Rightarrow>
                             DhcpServerIp old4 \<noteq> DhcpServerIp ipv4DhcpServer \<or>
                             GatewayIp old4 \<noteq> GatewayIp ipv4DhcpServer \<or>
                             \<not> equalOrderedStrings (DnsNameservers old4)
                                 (DnsNameservers ipv4DhcpServer)) \<or>
                        \<not> equalCommonTags (srv_Tags oldServer) (srv_Tags server)
                     then
                       (case UpdateDhcpServer a sid server of (_, resp, err) \<Rightarrow>
                          (let log2 = log1 @ [CallUpdateDhcpServer sid server] in
                           case err of
                             Some e \<Rightarrow> (Return (Some (updatingErr e)), state, log2)
                           | None \<Rightarrow>
                               (case resp of
                                  None \<Rightarrow> (Panic, state, log2)
                                | Some r \<Rightarrow>
                                    if StatusCode r \<noteq> StatusOK
                                    then (Return (Some (UnexpectedStatus ''updating'' (StatusCode r))),
                                          state, log2)
                                    else (Return None, state, log2))))
                     else (Return None, state, log1)))
         | None \<Rightarrow>
             (case CreateDhcpServer a server of (createdServer, resp, err) \<Rightarrow>
                (let log1 = log @ [CallCreateDhcpServer server] in
                 case err of
                   Some e \<Rightarrow> (Return (Some (creatingErr e)), state, log1)
                 | None \<Rightarrow>
                     (case resp of
                        None \<Rightarrow> (Panic, state, log1)
                      | Some r \<Rightarrow>
                          if StatusCode r \<noteq> StatusCreated
                          then (Return (Some (UnexpectedStatus ''creating'' (StatusCode r))),
                                state, log1)
                          else (Return None,
                                state\<lparr>AdvancedDHCP :=
                                  (AdvancedDHCP state)\<lparr>ServerID := Some (srv_Id createdServer)\<rparr>\<rparr>,
                                log1))))))))"
  by pat_completeness auto
termination
  by (relation "measure (\<lambda>(a, spec, state, log).
        case ServerID (AdvancedDHCP state) of None \<Rightarrow> 0 | Some _ \<Rightarrow> 1)") auto

declare advancedDHCPServerTask_Ensure.simps [simp del]

definition advancedDHCPServerTask_EnsureDeleted ::
  "ensurer \<Rightarrow> NSXTInfraSpec \<Rightarrow> NSXTInfraState \<Rightarrow> call list
     \<Rightarrow> (bool \<times> error option) go \<times> NSXTInfraState \<times> call list" where
  "advancedDHCPServerTask_EnsureDeleted a spec state log =
     (case ServerID (AdvancedDHCP state) of
        None \<Rightarrow> (Return (False, None), state, log)
      | Some sid \<Rightarrow>
          (case DeleteDhcpServer a sid of (resp, err) \<Rightarrow>
             (let log1 = log @ [CallDeleteDhcpServer sid] in
              if respNotFound resp then
                (Return (False, None),
                 state\<lparr>AdvancedDHCP := (AdvancedDHCP state)\<lparr>ServerID := None\<rparr>\<rparr>, log1)
              else case err of
                Some e \<Rightarrow> (Return (False, Some e), state, log1)
              | None \<Rightarrow>
                  (Return (True, None),
                   state\<lparr>AdvancedDHCP := (AdvancedDHCP state)\<lparr>ServerID := None\<rparr>\<rparr>, log1))))"

subsection \<open>Logical switch lookup\<close>

fun hasPolicyPathTag :: "string \<Rightarrow> common_Tag list \<Rightarrow> bool" where
  "hasPolicyPathTag path [] = False"
| "hasPolicyPathTag path (tag # tags) =
     (if Scope tag = ''policyPath'' \<and> Tag tag = path then True else hasPolicyPathTag path tags)"

fun findLogicalSwitch :: "string \<Rightarrow> LogicalSwitch list \<Rightarrow> string option" where
  "findLogicalSwitch path [] = None"
| "findLogicalSwitch path (obj # objs) =
     (if hasPolicyPathTag path (ls_Tags obj) then Some (ls_Id obj)
      else findLogicalSwitch path objs)"

definition advancedLookupLogicalSwitchTask_Ensure ::
  "ensurer \<Rightarrow> NSXTInfraSpec \<Rightarrow> NSXTInfraState \<Rightarrow> call list
     \<Rightarrow> error option go \<times> NSXTInfraState \<times> call list" where
  "advancedLookupLogicalSwitchTask_Ensure a spec state log =
     (case ListLogicalSwitches a of (result, resp, err) \<Rightarrow>
        (let log1 = log @ [CallListLogicalSwitches] in
         case err of
           Some e \<Rightarrow> (Return (Some e), state, log1)
         | None \<Rightarrow>
             (case resp of
                None \<Rightarrow> (Panic, state, log1)
              | Some r \<Rightarrow>
                  if StatusCode r \<noteq> StatusOK
                  then (Return (Some (UnexpectedStatus ''listing'' (StatusCode r))), state, log1)
                  else
                    (case findLogicalSwitch (SegmentRef_Path state) result of
                       Some i \<Rightarrow>
                         (Return None,
                          state\<lparr>AdvancedDHCP := (AdvancedDHCP state)\<lparr>LogicalSwitchID := Some i\<rparr>\<rparr>,
                          log1)
                     | None \<Rightarrow>
                         (Return (Some (NotFoundBySegmentPath (SegmentRef_Path state))),
                          state, log1)))))"

subsection \<open>DHCP port\<close>

function advancedDHCPPortTask_Ensure ::
  "ensurer \<Rightarrow> NSXTInfraSpec \<Rightarrow> NSXTInfraState \<Rightarrow> call list
     \<Rightarrow> error option go \<times> NSXTInfraState \<times> call list" where
  "advancedDHCPPortTask_Ensure a spec state log =
     (case ServerID (AdvancedDHCP state) of
        None \<Rightarrow> (Panic, state, log)
      | Some serverId \<Rightarrow>
     (let attachment = \<lparr>AttachmentType = ''DHCP_SERVICE'', att_Id = serverId\<rparr> in
      case LogicalSwitchID (AdvancedDHCP state) of
        None \<Rightarrow> (Panic, state, log)
      | Some switchId \<Rightarrow>
        (let port = \<lparr>port_Id = [], port_DisplayName = FullClusterName spec,
                     port_Description = description a, port_LogicalSwitchId = switchId,
                     port_AdminState = ''UP'', port_Tags = createCommonTags spec,
                     port_Attachment = Some attachment\<rparr> in
         case PortID (AdvancedDHCP state) of
           Some pid \<Rightarrow>
             (case GetLogicalPort a pid of (oldPort, resp, err) \<Rightarrow>
                (let log1 = log @ [CallGetLogicalPort pid] in
                 if respNotFound resp then
                   advancedDHCPPortTask_Ensure a spec
                     (state\<lparr>AdvancedDHCP := (AdvancedDHCP state)\<lparr>PortID := None\<rparr>\<rparr>) log1
                 else case err of
                   Some e \<Rightarrow> (Return (Some (readingErr e)), state, log1)
                 | None \<Rightarrow>
                     if port_DisplayName oldPort \<noteq> port_DisplayName port \<or>
                        port_LogicalSwitchId oldPort \<noteq> port_LogicalSwitchId port \<or>
                        port_AdminState oldPort \<noteq> port_AdminState port \<or>
                        (case port_Attachment oldPort of
                           None \<Rightarrow> True
                         | Some oldAttachment \<Rightarrow>
                             AttachmentType oldAttachment \<noteq> AttachmentType attachment \<or>
                             att_Id oldAttachment \<noteq> att_Id attachment) \<or>
                        \<not> equalCommonTags (port_Tags oldPort) (port_Tags port)
                     then
                       (case UpdateLogicalPort a pid port of (_, resp, err) \<Rightarrow>
                          (let log2 = log1 @ [CallUpdateLogicalPort pid port] in
                           case err of
                             Some e \<Rightarrow> (Return (Some (updatingErr e)), state, log2)
                           | None \<Rightarrow>
                               (case resp of
                                  None \<Rightarrow> (Panic, state, log2)
                                | Some r \<Rightarrow>
                                    if StatusCode r \<noteq> StatusOK
                                    then (Return (Some (UnexpectedStatus ''updating'' (StatusCode r))),
                                          state, log2)
                                    else (Return None, state, log2))))
                     else (Return None, state, log1)))
         | None \<Rightarrow>
             (case CreateLogicalPort a port of (createdPort, resp, err) \<Rightarrow>
                (let log1 = log @ [CallCreateLogicalPort port] in
                 case err of
                   Some e \<Rightarrow> (Return (Some (creatingErr e)), state, log1)
                 | None \<Rightarrow>
                     (case resp of
                        None \<Rightarrow> (Panic, state, log1)
                      | Some r \<Rightarrow>
                          if StatusCode r \<noteq> StatusCreated
                          then (Return (Some (UnexpectedStatus ''creating'' (StatusCode r))),
                                state, log1)
                          else (Return None,
                                state\<lparr>AdvancedDHCP :=
                                  (AdvancedDHCP state)\<lparr>PortID := Some (port_Id createdPort)\<rparr>\<rparr>,
                                log1)))))))"
  by pat_completeness auto
termination
  by (relation "measure (\<lambda>(a, spec, state, log).
        case PortID (AdvancedDHCP state) of None \<Rightarrow> 0 | Some _ \<Rightarrow> 1)") auto

declare advancedDHCPPortTask_Ensure.simps [simp del]

text \<open>The delete call carries the option \<^verbatim>\<open>detach = true\<close>.\<close>

definition advancedDHCPPortTask_EnsureDeleted ::
  "ensurer \<Rightarrow> NSXTInfraSpec \<Rightarrow> NSXTInfraState \<Rightarrow> call list
     \<Rightarrow> (bool \<times> error option) go \<times> NSXTInfraState \<times> call list" where
  "advancedDHCPPortTask_EnsureDeleted a spec state log =
     (case PortID (AdvancedDHCP state) of
        None \<Rightarrow> (Return (False, None), state, log)
      | Some pid \<Rightarrow>
          (case DeleteLogicalPort a pid True of (resp, err) \<Rightarrow>
             (let log1 = log @ [CallDeleteLogicalPort pid True] in
              if respNotFound resp then
                (Return (False, None),
                 state\<lparr>AdvancedDHCP := (AdvancedDHCP state)\<lparr>PortID := None\<rparr>\<rparr>, log1)
              else case err of
                Some e \<Rightarrow> (Return (False, Some e), state, log1)
              | None \<Rightarrow>
                  (Return (True, None),
                   state\<lparr>AdvancedDHCP := (AdvancedDHCP state)\<lparr>PortID := None\<rparr>\<rparr>, log1))))"

subsection \<open>DHCP IP pool\<close>

text \<open>
  The two threshold tests of the update decision are written with \<^verbatim>\<open>==\<close> in the source
  (lines 370 and 371) and are kept so. \<^verbatim>\<open>oldPool.AllocationRanges[0]\<close> is read only after
  the length test has found exactly one range.
\<close>

function advancedDHCPIPPoolTask_Ensure ::
  "ensurer \<Rightarrow> NSXTInfraSpec \<Rightarrow> NSXTInfraState \<Rightarrow> call list
     \<Rightarrow> error option go \<times> NSXTInfraState \<times> call list" where
  "advancedDHCPIPPoolTask_Ensure a spec state log =
     (case cidrHost (WorkersNetwork spec) 1 of
        Inl err \<Rightarrow> (Return (Some (Wrapf err ''gateway IP'')), state, log)
      | Inr gatewayIP \<Rightarrow>
     (case cidrHost (WorkersNetwork spec) 10 of
        Inl err \<Rightarrow> (Return (Some (Wrapf err ''start IP of pool'')), state, log)
      | Inr startIP \<Rightarrow>
     (case cidrHost (WorkersNetwork spec) (- 1) of
        Inl err \<Rightarrow> (Return (Some (Wrapf err ''end IP of pool'')), state, log)
      | Inr endIP \<Rightarrow>
     (let ipPoolRange = \<lparr>range_Start = startIP, range_End = endIP\<rparr>;
          pool = \<lparr>pool_Id = [], pool_DisplayName = FullClusterName spec,
                  pool_Description = description a, pool_GatewayIp = gatewayIP,
                  pool_LeaseTime = 7200, pool_ErrorThreshold = 98,
                  pool_WarningThreshold = 70, pool_AllocationRanges = [ipPoolRange],
                  pool_Tags = createCommonTags spec\<rparr> in
      case IPPoolID (AdvancedDHCP state) of
        Some poolId \<Rightarrow>
          (case ServerID (AdvancedDHCP state) of
             None \<Rightarrow> (Panic, state, log)
           | Some serverId \<Rightarrow>
             (case ReadDhcpIpPool a serverId poolId of (oldPool, resp, err) \<Rightarrow>
                (let log1 = log @ [CallReadDhcpIpPool serverId poolId] in
                 if respNotFound resp then
                   advancedDHCPIPPoolTask_Ensure a spec
                     (state\<lparr>AdvancedDHCP := (AdvancedDHCP state)\<lparr>IPPoolID := None\<rparr>\<rparr>) log1
                 else case err of
                   Some e \<Rightarrow> (Return (Some (readingErr e)), state, log1)
                 | None \<Rightarrow>
                     if pool_DisplayName oldPool \<noteq> pool_DisplayName pool \<or>
                        pool_GatewayIp oldPool \<noteq> pool_GatewayIp pool \<or>
                        pool_LeaseTime oldPool \<noteq> pool_LeaseTime pool \<or>
                        pool_ErrorThreshold oldPool = pool_ErrorThreshold pool \<or>
                        pool_WarningThreshold oldPool = pool_WarningThreshold pool \<or>
                        length (pool_AllocationRanges oldPool) \<noteq> 1 \<or>
                        range_Start (pool_AllocationRanges oldPool ! 0)
                          \<noteq> range_Start (pool_AllocationRanges pool ! 0) \<or>
                        range_End (pool_AllocationRanges oldPool ! 0)
                          \<noteq> range_End (pool_AllocationRanges pool ! 0) \<or>
                        \<not> equalCommonTags (pool_Tags oldPool) (pool_Tags pool)
                     then
                       (case UpdateDhcpIpPool a serverId poolId pool of (_, resp, err) \<Rightarrow>
                          (let log2 = log1 @ [CallUpdateDhcpIpPool serverId poolId pool] in
                           case err of
                             Some e \<Rightarrow> (Return (Some (updatingErr e)), state, log2)
                           | None \<Rightarrow>
                               (case resp of
                                  None \<Rightarrow> (Panic, state, log2)
                                | Some r \<Rightarrow>
                                    if StatusCode r \<noteq> StatusOK
                                    then (Return (Some (UnexpectedStatus ''updating'' (StatusCode r))),
                                          state, log2)
                                    else (Return None, state, log2))))
                     else (Return None, state, log1))))
      | None \<Rightarrow>
          (case ServerID (AdvancedDHCP state) of
             None \<Rightarrow> (Panic, state, log)
           | Some serverId \<Rightarrow>
             (case CreateDhcpIpPool a serverId pool of (createdPool, resp, err) \<Rightarrow>
                (let log1 = log @ [CallCreateDhcpIpPool serverId pool] in
                 case err of
                   Some e \<Rightarrow> (Return (Some (creatingErr e)), state, log1)
                 | None \<Rightarrow>
                     (case resp of
                        None \<Rightarrow> (Panic, state, log1)
                      | Some r \<Rightarrow>
                          if StatusCode r \<noteq> StatusCreated
                          then (Return (Some (UnexpectedStatus ''creating'' (StatusCode r))),
                                state, log1)
                          else (Return None,
                                state\<lparr>AdvancedDHCP :=
                                  (AdvancedDHCP state)\<lparr>IPPoolID := Some (pool_Id createdPool)\<rparr>\<rparr>,
                                log1)))))))))"
  by pat_completeness auto
termination
  by (relation "measure (\<lambda>(a, spec, state, log).
        case IPPoolID (AdvancedDHCP state) of None \<Rightarrow> 0 | Some _ \<Rightarrow> 1)") auto

declare advancedDHCPIPPoolTask_Ensure.simps [simp del]

definition advancedDHCPIPPoolTask_EnsureDeleted ::
  "ensurer \<Rightarrow> NSXTInfraSpec \<Rightarrow> NSXTInfraState \<Rightarrow> call list
     \<Rightarrow> (bool \<times> error option) go \<times> NSXTInfraState \<times> call list" where
  "advancedDHCPIPPoolTask_EnsureDeleted a spec state log =
     (case IPPoolID (AdvancedDHCP state) of
        None \<Rightarrow> (Return (False, None), state, log)
      | Some poolId \<Rightarrow>
          (case ServerID (AdvancedDHCP state) of
             None \<Rightarrow> (Panic, state, log)
           | Some serverId \<Rightarrow>
             (case DeleteDhcpIpPool a serverId poolId of (resp, err) \<Rightarrow>
                (let log1 = log @ [CallDeleteDhcpIpPool serverId poolId] in
                 if respNotFound resp then
                   (Return (False, None),
                    state\<lparr>AdvancedDHCP := (AdvancedDHCP state)\<lparr>IPPoolID := None\<rparr>\<rparr>, log1)
                 else case err of
                   Some e \<Rightarrow> (Return (False, Some e), state, log1)
                 | None \<Rightarrow>
                     (Return (True, None),
                      state\<lparr>AdvancedDHCP := (AdvancedDHCP state)\<lparr>IPPoolID := None\<rparr>\<rparr>, log1)))))"

section \<open>The objects the tasks build\<close>

text \<open>
  The desired objects that the four owning \<^verbatim>\<open>Ensure\<close> methods assemble before they look at
  the state, named so that the properties below can speak about the calls in the log.
\<close>

definition desiredProfile :: "ensurer \<Rightarrow> NSXTInfraSpec \<Rightarrow> string \<Rightarrow> DhcpProfile" where
  "desiredProfile a spec ecid =
     \<lparr>prof_Id = [], prof_DisplayName = FullClusterName spec,
      prof_Description = description a, prof_EdgeClusterId = ecid,
      prof_Tags = createCommonTags spec\<rparr>"

definition desiredServer ::
  "ensurer \<Rightarrow> NSXTInfraSpec \<Rightarrow> string \<Rightarrow> string \<Rightarrow> string \<Rightarrow> LogicalDhcpServer" where
  "desiredServer a spec profileId dhcpServerIP gatewayIP =
     \<lparr>srv_Id = [], srv_Description = description a,
      srv_DisplayName = FullClusterName spec, srv_Tags = createCommonTags spec,
      srv_DhcpProfileId = profileId,
      srv_Ipv4DhcpServer = Some \<lparr>DhcpServerIp = dhcpServerIP, DnsNameservers = DNSServers spec,
                                  GatewayIp = gatewayIP\<rparr>\<rparr>"

definition desiredPort :: "ensurer \<Rightarrow> NSXTInfraSpec \<Rightarrow> string \<Rightarrow> string \<Rightarrow> LogicalPort" where
  "desiredPort a spec serverId switchId =
     \<lparr>port_Id = [], port_DisplayName = FullClusterName spec,
      port_Description = description a, port_LogicalSwitchId = switchId,
      port_AdminState = ''UP'', port_Tags = createCommonTags spec,
      port_Attachment = Some \<lparr>AttachmentType = ''DHCP_SERVICE'', att_Id = serverId\<rparr>\<rparr>"

definition desiredPool ::
  "ensurer \<Rightarrow> NSXTInfraSpec \<Rightarrow> string \<Rightarrow> string \<Rightarrow> string \<Rightarrow> DhcpIpPool" where
  "desiredPool a spec gatewayIP startIP endIP =
     \<lparr>pool_Id = [], pool_DisplayName = FullClusterName spec,
      pool_Description = description a, pool_GatewayIp = gatewayIP,
      pool_LeaseTime = 7200, pool_ErrorThreshold = 98,
      pool_WarningThreshold = 70,
      pool_AllocationRanges = [\<lparr>range_Start = startIP, range_End = endIP\<rparr>],
      pool_Tags = createCommonTags spec\<rparr>"

text \<open>What \<^verbatim>\<open>Ensure\<close> returned, the state it left and the calls it logged.\<close>

definition result :: "'r \<times> NSXTInfraState \<times> call list \<Rightarrow> 'r" where
  "result x = fst x"

definition stateAfter :: "'r \<times> NSXTInfraState \<times> call list \<Rightarrow> NSXTInfraState" where
  "stateAfter x = fst (snd x)"

definition calls :: "'r \<times> NSXTInfraState \<times> call list \<Rightarrow> call list" where
  "calls x = snd (snd x)"

section \<open>Concrete inputs\<close>

text \<open>
  A spec for the worker subnet \<^verbatim>\<open>10.0.0.0/24\<close>, states with chosen identifiers, and a
  client that answers every list, read and delete call with \<open>rd\<close> and every create and
  update call with \<open>wr\<close>. What it reads back is the desired object under the identifier
  asked for; what it creates is the object sent, with a fresh identifier.
\<close>

definition exampleSpec :: NSXTInfraSpec where
  "exampleSpec =
     \<lparr>EdgeClusterName = ''edge-1'', WorkersNetwork = ''10.0.0.0/24'',
      DNSServers = [''8.8.8.8'', ''1.1.1.1''], FullClusterName = ''shoot--foo--bar'',
      createCommonTags = [\<lparr>Scope = ''owner'', Tag = ''gardener''\<rparr>,
                          \<lparr>Scope = ''cluster'', Tag = ''shoot--foo--bar''\<rparr>]\<rparr>"

definition exampleState ::
  "string option \<Rightarrow> string option \<Rightarrow> string option \<Rightarrow> string option \<Rightarrow> string option
     \<Rightarrow> string option \<Rightarrow> NSXTInfraState" where
  "exampleState ec prof srv sw port pool =
     \<lparr>SegmentRef_Path = ''/infra/segments/seg-1'',
      AdvancedDHCP = \<lparr>EdgeClusterID = ec, ProfileID = prof, ServerID = srv,
                       LogicalSwitchID = sw, PortID = port, IPPoolID = pool\<rparr>\<rparr>"

definition exampleProfile :: DhcpProfile where
  "exampleProfile =
     \<lparr>prof_Id = [], prof_DisplayName = ''shoot--foo--bar'',
      prof_Description = ''managed by gardener'', prof_EdgeClusterId = ''ec-1'',
      prof_Tags = [\<lparr>Scope = ''owner'', Tag = ''gardener''\<rparr>,
                   \<lparr>Scope = ''cluster'', Tag = ''shoot--foo--bar''\<rparr>]\<rparr>"

definition exampleServer :: LogicalDhcpServer where
  "exampleServer =
     \<lparr>srv_Id = [], srv_Description = ''managed by gardener'',
      srv_DisplayName = ''shoot--foo--bar'',
      srv_Tags = [\<lparr>Scope = ''owner'', Tag = ''gardener''\<rparr>,
                  \<lparr>Scope = ''cluster'', Tag = ''shoot--foo--bar''\<rparr>],
      srv_DhcpProfileId = ''profile-1'',
      srv_Ipv4DhcpServer = Some \<lparr>DhcpServerIp = ''10.0.0.2/24'',
                                  DnsNameservers = [''8.8.8.8'', ''1.1.1.1''],
                                  GatewayIp = ''10.0.0.1''\<rparr>\<rparr>"

definition examplePort :: LogicalPort where
  "examplePort =
     \<lparr>port_Id = [], port_DisplayName = ''shoot--foo--bar'',
      port_Description = ''managed by gardener'', port_LogicalSwitchId = ''switch-1'',
      port_AdminState = ''UP'',
      port_Tags = [\<lparr>Scope = ''owner'', Tag = ''gardener''\<rparr>,
                   \<lparr>Scope = ''cluster'', Tag = ''shoot--foo--bar''\<rparr>],
      port_Attachment = Some \<lparr>AttachmentType = ''DHCP_SERVICE'', att_Id = ''server-1''\<rparr>\<rparr>"

definition examplePool :: DhcpIpPool where
  "examplePool =
     \<lparr>pool_Id = [], pool_DisplayName = ''shoot--foo--bar'',
      pool_Description = ''managed by gardener'', pool_GatewayIp = ''10.0.0.1'',
      pool_LeaseTime = 7200, pool_ErrorThreshold = 98, pool_WarningThreshold = 70,
      pool_AllocationRanges = [\<lparr>range_Start = ''10.0.0.10'', range_End = ''10.0.0.254''\<rparr>],
      pool_Tags = [\<lparr>Scope = ''owner'', Tag = ''gardener''\<rparr>,
                   \<lparr>Scope = ''cluster'', Tag = ''shoot--foo--bar''\<rparr>]\<rparr>"

definition exampleClient ::
  "Response option \<times> error option \<Rightarrow> Response option \<times> error option \<Rightarrow> ensurer" where
  "exampleClient rd wr =
     \<lparr>description = ''managed by gardener'',
      ListEdgeClusters =
        ([\<lparr>ec_Id = ''ec-0'', ec_DisplayName = ''edge-0''\<rparr>,
          \<lparr>ec_Id = ''ec-1'', ec_DisplayName = ''edge-1''\<rparr>], fst rd, snd rd),
      ReadDhcpProfile = (\<lambda>i. (exampleProfile\<lparr>prof_Id := i\<rparr>, fst rd, snd rd)),
      UpdateDhcpProfile = (\<lambda>i p. (p\<lparr>prof_Id := i\<rparr>, fst wr, snd wr)),
      CreateDhcpProfile = (\<lambda>p. (p\<lparr>prof_Id := ''profile-new''\<rparr>, fst wr, snd wr)),
      DeleteDhcpProfile = (\<lambda>i. (fst rd, snd rd)),
      ReadDhcpServer = (\<lambda>i. (exampleServer\<lparr>srv_Id := i\<rparr>, fst rd, snd rd)),
      UpdateDhcpServer = (\<lambda>i p. (p\<lparr>srv_Id := i\<rparr>, fst wr, snd wr)),
      CreateDhcpServer = (\<lambda>p. (p\<lparr>srv_Id := ''server-new''\<rparr>, fst wr, snd wr)),
      DeleteDhcpServer = (\<lambda>i. (fst rd, snd rd)),
      ListLogicalSwitches =
        ([\<lparr>ls_Id = ''switch-1'',
           ls_Tags = [\<lparr>Scope = ''policyPath'', Tag = ''/infra/segments/seg-1''\<rparr>]\<rparr>],
         fst rd, snd rd),
      GetLogicalPort = (\<lambda>i. (examplePort\<lparr>port_Id := i\<rparr>, fst rd, snd rd)),
      UpdateLogicalPort = (\<lambda>i p. (p\<lparr>port_Id := i\<rparr>, fst wr, snd wr)),
      CreateLogicalPort = (\<lambda>p. (p\<lparr>port_Id := ''port-new''\<rparr>, fst wr, snd wr)),
      DeleteLogicalPort = (\<lambda>i detach. (fst rd, snd rd)),
      ReadDhcpIpPool = (\<lambda>s i. (examplePool\<lparr>pool_Id := i\<rparr>, fst rd, snd rd)),
      UpdateDhcpIpPool = (\<lambda>s i p. (p\<lparr>pool_Id := i\<rparr>, fst wr, snd wr)),
      CreateDhcpIpPool = (\<lambda>s p. (p\<lparr>pool_Id := ''pool-new''\<rparr>, fst wr, snd wr)),
      DeleteDhcpIpPool = (\<lambda>s i. (fst rd, snd rd))\<rparr>"

definition ok :: "int \<Rightarrow> Response option \<times> error option" where
  "ok code = (Some \<lparr>StatusCode = code\<rparr>, None)"

definition failing :: "int \<Rightarrow> string \<Rightarrow> Response option \<times> error option" where
  "failing code msg = (Some \<lparr>StatusCode = code\<rparr>, Some (ClientError msg))"

text \<open>
  What a create or an update call makes of its answer: the error wrapped, a panic on
  \<^verbatim>\<open>resp.StatusCode\<close> of a nil response, the unexpected-status error, or success.
\<close>

definition createOutcome :: "Response option \<Rightarrow> error option \<Rightarrow> error option go" where
  "createOutcome resp err =
     (case err of
        Some e \<Rightarrow> Return (Some (creatingErr e))
      | None \<Rightarrow>
          (case resp of
             None \<Rightarrow> Panic
           | Some r \<Rightarrow>
               if StatusCode r \<noteq> StatusCreated
               then Return (Some (UnexpectedStatus ''creating'' (StatusCode r)))
               else Return None))"

definition updateOutcome :: "Response option \<Rightarrow> error option \<Rightarrow> error option go" where
  "updateOutcome resp err =
     (case err of
        Some e \<Rightarrow> Return (Some (updatingErr e))
      | None \<Rightarrow>
          (case resp of
             None \<Rightarrow> Panic
           | Some r \<Rightarrow>
               if StatusCode r \<noteq> StatusOK
               then Return (Some (UnexpectedStatus ''updating'' (StatusCode r)))
               else Return None))"

text \<open>
  Two clients that answer like \<open>exampleClient (ok 200) (ok 200)\<close>, except that the server
  read back has its DNS servers, respectively its tags, in the other order.
\<close>

definition exampleClientReorderedDNS :: ensurer where
  "exampleClientReorderedDNS =
     (exampleClient (ok 200) (ok 200))
       \<lparr>ReadDhcpServer := (\<lambda>i.
          (exampleServer\<lparr>srv_Id := i,
             srv_Ipv4DhcpServer := Some \<lparr>DhcpServerIp = ''10.0.0.2/24'',
                                          DnsNameservers = [''1.1.1.1'', ''8.8.8.8''],
                                          GatewayIp = ''10.0.0.1''\<rparr>\<rparr>,
           Some \<lparr>StatusCode = 200\<rparr>, None))\<rparr>"

definition exampleClientReorderedTags :: ensurer where
  "exampleClientReorderedTags =
     (exampleClient (ok 200) (ok 200))
       \<lparr>ReadDhcpServer := (\<lambda>i.
          (exampleServer\<lparr>srv_Id := i,
             srv_Tags := [\<lparr>Scope = ''cluster'', Tag = ''shoot--foo--bar''\<rparr>,
                          \<lparr>Scope = ''owner'', Tag = ''gardener''\<rparr>]\<rparr>,
           Some \<lparr>StatusCode = 200\<rparr>, None))\<rparr>"

section \<open>Unfolding the tasks\<close>

lemma profile_create:
  assumes "EdgeClusterID (AdvancedDHCP state) = Some ecid"
    and "ProfileID (AdvancedDHCP state) = None"
    and "CreateDhcpProfile a (desiredProfile a spec ecid) = (created, resp, err)"
  shows "advancedDHCPProfileTask_Ensure a spec state log =
     (createOutcome resp err,
      if createOutcome resp err = Return None
      then state\<lparr>AdvancedDHCP := (AdvancedDHCP state)\<lparr>ProfileID := Some (prof_Id created)\<rparr>\<rparr>
      else state,
      log @ [CallCreateDhcpProfile (desiredProfile a spec ecid)])"
  using assms unfolding advancedDHCPProfileTask_Ensure.simps [of a spec state log]
  by (simp add: desiredProfile_def createOutcome_def Let_def split: option.splits)

lemma profile_notfound:
  assumes "EdgeClusterID (AdvancedDHCP state) = Some ecid"
    and "ProfileID (AdvancedDHCP state) = Some pid"
    and "ReadDhcpProfile a pid = (oldProfile, resp, err)"
    and "respNotFound resp"
  shows "advancedDHCPProfileTask_Ensure a spec state log =
     advancedDHCPProfileTask_Ensure a spec
       (state\<lparr>AdvancedDHCP := (AdvancedDHCP state)\<lparr>ProfileID := None\<rparr>\<rparr>)
       (log @ [CallReadDhcpProfile pid])"
  using assms unfolding advancedDHCPProfileTask_Ensure.simps [of a spec state log]
  by (simp add: Let_def)

lemma profile_readerr:
  assumes "EdgeClusterID (AdvancedDHCP state) = Some ecid"
    and "ProfileID (AdvancedDHCP state) = Some pid"
    and "ReadDhcpProfile a pid = (oldProfile, resp, Some e)"
    and "\<not> respNotFound resp"
  shows "advancedDHCPProfileTask_Ensure a spec state log =
     (Return (Some (readingErr e)), state, log @ [CallReadDhcpProfile pid])"
  using assms unfolding advancedDHCPProfileTask_Ensure.simps [of a spec state log]
  by (simp add: Let_def)

lemma profile_found:
  assumes "EdgeClusterID (AdvancedDHCP state) = Some ecid"
    and "ProfileID (AdvancedDHCP state) = Some pid"
    and "ReadDhcpProfile a pid = (oldProfile, resp, None)"
    and "\<not> respNotFound resp"
    and "UpdateDhcpProfile a pid (desiredProfile a spec ecid) = (updated, resp2, err2)"
  shows "advancedDHCPProfileTask_Ensure a spec state log =
     (if prof_DisplayName oldProfile \<noteq> FullClusterName spec \<or>
         prof_EdgeClusterId oldProfile \<noteq> ecid \<or>
         \<not> equalCommonTags (prof_Tags oldProfile) (createCommonTags spec)
      then (updateOutcome resp2 err2, state,
            log @ [CallReadDhcpProfile pid, CallUpdateDhcpProfile pid (desiredProfile a spec ecid)])
      else (Return None, state, log @ [CallReadDhcpProfile pid]))"
  using assms unfolding advancedDHCPProfileTask_Ensure.simps [of a spec state log]
  by (simp add: desiredProfile_def updateOutcome_def Let_def split: option.splits)


lemma server_create:
  assumes "cidrHostAndPrefix (WorkersNetwork spec) 2 = Inr dhcpServerIP"
    and "cidrHost (WorkersNetwork spec) 1 = Inr gatewayIP"
    and "ProfileID (AdvancedDHCP state) = Some profileId"
    and "ServerID (AdvancedDHCP state) = None"
    and "CreateDhcpServer a (desiredServer a spec profileId dhcpServerIP gatewayIP) = (created, resp, err)"
  shows "advancedDHCPServerTask_Ensure a spec state log =
     (createOutcome resp err,
      if createOutcome resp err = Return None
      then state\<lparr>AdvancedDHCP := (AdvancedDHCP state)\<lparr>ServerID := Some (srv_Id created)\<rparr>\<rparr>
      else state,
      log @ [CallCreateDhcpServer (desiredServer a spec profileId dhcpServerIP gatewayIP)])"
  using assms unfolding advancedDHCPServerTask_Ensure.simps [of a spec state log]
  by (simp add: desiredServer_def createOutcome_def Let_def split: option.splits)

lemma server_notfound:
  assumes "cidrHostAndPrefix (WorkersNetwork spec) 2 = Inr dhcpServerIP"
    and "cidrHost (WorkersNetwork spec) 1 = Inr gatewayIP"
    and "ProfileID (AdvancedDHCP state) = Some profileId"
    and "ServerID (AdvancedDHCP state) = Some sid"
    and "ReadDhcpServer a sid = (oldServer, resp, err)"
    and "respNotFound resp"
  shows "advancedDHCPServerTask_Ensure a spec state log =
     advancedDHCPServerTask_Ensure a spec
       (state\<lparr>AdvancedDHCP := (AdvancedDHCP state)\<lparr>ServerID := None\<rparr>\<rparr>)
       (log @ [CallReadDhcpServer sid])"
  using assms unfolding advancedDHCPServerTask_Ensure.simps [of a spec state log]
  by (simp add: Let_def)

lemma server_readerr:
  assumes "cidrHostAndPrefix (WorkersNetwork spec) 2 = Inr dhcpServerIP"
    and "cidrHost (WorkersNetwork spec) 1 = Inr gatewayIP"
    and "ProfileID (AdvancedDHCP state) = Some profileId"
    and "ServerID (AdvancedDHCP state) = Some sid"
    and "ReadDhcpServer a sid = (oldServer, resp, Some e)"
    and "\<not> respNotFound resp"
  shows "advancedDHCPServerTask_Ensure a spec state log =
     (Return (Some (readingErr e)), state, log @ [CallReadDhcpServer sid])"
  using assms unfolding advancedDHCPServerTask_Ensure.simps [of a spec state log]
  by (simp add: Let_def)

lemma server_found:
  assumes "cidrHostAndPrefix (WorkersNetwork spec) 2 = Inr dhcpServerIP"
    and "cidrHost (WorkersNetwork spec) 1 = Inr gatewayIP"
    and "ProfileID (AdvancedDHCP state) = Some profileId"
    and "ServerID (AdvancedDHCP state) = Some sid"
    and "ReadDhcpServer a sid = (oldServer, resp, None)"
    and "\<not> respNotFound resp"
    and "UpdateDhcpServer a sid (desiredServer a spec profileId dhcpServerIP gatewayIP)
           = (updated, resp2, err2)"
  shows "advancedDHCPServerTask_Ensure a spec state log =
     (if srv_DisplayName oldServer \<noteq> FullClusterName spec \<or>
         srv_DhcpProfileId oldServer \<noteq> profileId \<or>
         (case srv_Ipv4DhcpServer oldServer of
            None \<Rightarrow> True
          | Some old4 \<Rightarrow>
              DhcpServerIp old4 \<noteq> dhcpServerIP \<or> GatewayIp old4 \<noteq> gatewayIP \<or>
              \<not> equalOrderedStrings (DnsNameservers old4) (DNSServers spec)) \<or>
         \<not> equalCommonTags (srv_Tags oldServer) (createCommonTags spec)
      then (updateOutcome resp2 err2, state,
            log @ [CallReadDhcpServer sid,
                   CallUpdateDhcpServer sid (desiredServer a spec profileId dhcpServerIP gatewayIP)])
      else (Return None, state, log @ [CallReadDhcpServer sid]))"
  using assms unfolding advancedDHCPServerTask_Ensure.simps [of a spec state log]
  by (simp add: desiredServer_def updateOutcome_def Let_def split: option.splits)

lemma port_create:
  assumes "ServerID (AdvancedDHCP state) = Some serverId"
    and "LogicalSwitchID (AdvancedDHCP state) = Some switchId"
    and "PortID (AdvancedDHCP state) = None"
    and "CreateLogicalPort a (desiredPort a spec serverId switchId) = (created, resp, err)"
  shows "advancedDHCPPortTask_Ensure a spec state log =
     (createOutcome resp err,
      if createOutcome resp err = Return None
      then state\<lparr>AdvancedDHCP := (AdvancedDHCP state)\<lparr>PortID := Some (port_Id created)\<rparr>\<rparr>
      else state,
      log @ [CallCreateLogicalPort (desiredPort a spec serverId switchId)])"
  using assms unfolding advancedDHCPPortTask_Ensure.simps [of a spec state log]
  by (simp add: desiredPort_def createOutcome_def Let_def split: option.splits)

lemma port_notfound:
  assumes "ServerID (AdvancedDHCP state) = Some serverId"
    and "LogicalSwitchID (AdvancedDHCP state) = Some switchId"
    and "PortID (AdvancedDHCP state) = Some pid"
    and "GetLogicalPort a pid = (oldPort, resp, err)"
    and "respNotFound resp"
  shows "advancedDHCPPortTask_Ensure a spec state log =
     advancedDHCPPortTask_Ensure a spec
       (state\<lparr>AdvancedDHCP := (AdvancedDHCP state)\<lparr>PortID := None\<rparr>\<rparr>)
       (log @ [CallGetLogicalPort pid])"
  using assms unfolding advancedDHCPPortTask_Ensure.simps [of a spec state log]
  by (simp add: Let_def)

lemma port_readerr:
  assumes "ServerID (AdvancedDHCP state) = Some serverId"
    and "LogicalSwitchID (AdvancedDHCP state) = Some switchId"
    and "PortID (AdvancedDHCP state) = Some pid"
    and "GetLogicalPort a pid = (oldPort, resp, Some e)"
    and "\<not> respNotFound resp"
  shows "advancedDHCPPortTask_Ensure a spec state log =
     (Return (Some (readingErr e)), state, log @ [CallGetLogicalPort pid])"
  using assms unfolding advancedDHCPPortTask_Ensure.simps [of a spec state log]
  by (simp add: Let_def)

lemma port_found:
  assumes "ServerID (AdvancedDHCP state) = Some serverId"
    and "LogicalSwitchID (AdvancedDHCP state) = Some switchId"
    and "PortID (AdvancedDHCP state) = Some pid"
    and "GetLogicalPort a pid = (oldPort, resp, None)"
    and "\<not> respNotFound resp"
    and "UpdateLogicalPort a pid (desiredPort a spec serverId switchId) = (updated, resp2, err2)"
  shows "advancedDHCPPortTask_Ensure a spec state log =
     (if port_DisplayName oldPort \<noteq> FullClusterName spec \<or>
         port_LogicalSwitchId oldPort \<noteq> switchId \<or>
         port_AdminState oldPort \<noteq> ''UP'' \<or>
         (case port_Attachment oldPort of
            None \<Rightarrow> True
          | Some oldAttachment \<Rightarrow>
              AttachmentType oldAttachment \<noteq> ''DHCP_SERVICE'' \<or>
              att_Id oldAttachment \<noteq> serverId) \<or>
         \<not> equalCommonTags (port_Tags oldPort) (createCommonTags spec)
      then (updateOutcome resp2 err2, state,
            log @ [CallGetLogicalPort pid,
                   CallUpdateLogicalPort pid (desiredPort a spec serverId switchId)])
      else (Return None, state, log @ [CallGetLogicalPort pid]))"
  using assms unfolding advancedDHCPPortTask_Ensure.simps [of a spec state log]
  by (simp add: desiredPort_def updateOutcome_def Let_def split: option.splits)

lemma pool_create:
  assumes "cidrHost (WorkersNetwork spec) 1 = Inr gatewayIP"
    and "cidrHost (WorkersNetwork spec) 10 = Inr startIP"
    and "cidrHost (WorkersNetwork spec) (- 1) = Inr endIP"
    and "IPPoolID (AdvancedDHCP state) = None"
    and "ServerID (AdvancedDHCP state) = Some serverId"
    and "CreateDhcpIpPool a serverId (desiredPool a spec gatewayIP startIP endIP) = (created, resp, err)"
  shows "advancedDHCPIPPoolTask_Ensure a spec state log =
     (createOutcome resp err,
      if createOutcome resp err = Return None
      then state\<lparr>AdvancedDHCP := (AdvancedDHCP state)\<lparr>IPPoolID := Some (pool_Id created)\<rparr>\<rparr>
      else state,
      log @ [CallCreateDhcpIpPool serverId (desiredPool a spec gatewayIP startIP endIP)])"
  using assms unfolding advancedDHCPIPPoolTask_Ensure.simps [of a spec state log]
  by (simp add: desiredPool_def createOutcome_def Let_def split: option.splits)

lemma pool_notfound:
  assumes "cidrHost (WorkersNetwork spec) 1 = Inr gatewayIP"
    and "cidrHost (WorkersNetwork spec) 10 = Inr startIP"
    and "cidrHost (WorkersNetwork spec) (- 1) = Inr endIP"
    and "IPPoolID (AdvancedDHCP state) = Some poolId"
    and "ServerID (AdvancedDHCP state) = Some serverId"
    and "ReadDhcpIpPool a serverId poolId = (oldPool, resp, err)"
    and "respNotFound resp"
  shows "advancedDHCPIPPoolTask_Ensure a spec state log =
     advancedDHCPIPPoolTask_Ensure a spec
       (state\<lparr>AdvancedDHCP := (AdvancedDHCP state)\<lparr>IPPoolID := None\<rparr>\<rparr>)
       (log @ [CallReadDhcpIpPool serverId poolId])"
  using assms unfolding advancedDHCPIPPoolTask_Ensure.simps [of a spec state log]
  by (simp add: Let_def)

lemma pool_readerr:
  assumes "cidrHost (WorkersNetwork spec) 1 = Inr gatewayIP"
    and "cidrHost (WorkersNetwork spec) 10 = Inr startIP"
    and "cidrHost (WorkersNetwork spec) (- 1) = Inr endIP"
    and "IPPoolID (AdvancedDHCP state) = Some poolId"
    and "ServerID (AdvancedDHCP state) = Some serverId"
    and "ReadDhcpIpPool a serverId poolId = (oldPool, resp, Some e)"
    and "\<not> respNotFound resp"
  shows "advancedDHCPIPPoolTask_Ensure a spec state log =
     (Return (Some (readingErr e)), state, log @ [CallReadDhcpIpPool serverId poolId])"
  using assms unfolding advancedDHCPIPPoolTask_Ensure.simps [of a spec state log]
  by (simp add: Let_def)

lemma pool_found:
  assumes "cidrHost (WorkersNetwork spec) 1 = Inr gatewayIP"
    and "cidrHost (WorkersNetwork spec) 10 = Inr startIP"
    and "cidrHost (WorkersNetwork spec) (- 1) = Inr endIP"
    and "IPPoolID (AdvancedDHCP state) = Some poolId"
    and "ServerID (AdvancedDHCP state) = Some serverId"
    and "ReadDhcpIpPool a serverId poolId = (oldPool, resp, None)"
    and "\<not> respNotFound resp"
    and "UpdateDhcpIpPool a serverId poolId (desiredPool a spec gatewayIP startIP endIP)
           = (updated, resp2, err2)"
  shows "advancedDHCPIPPoolTask_Ensure a spec state log =
     (if pool_DisplayName oldPool \<noteq> FullClusterName spec \<or>
         pool_GatewayIp oldPool \<noteq> gatewayIP \<or>
         pool_LeaseTime oldPool \<noteq> 7200 \<or>
         pool_ErrorThreshold oldPool = 98 \<or>
         pool_WarningThreshold oldPool = 70 \<or>
         length (pool_AllocationRanges oldPool) \<noteq> 1 \<or>
         range_Start (pool_AllocationRanges oldPool ! 0) \<noteq> startIP \<or>
         range_End (pool_AllocationRanges oldPool ! 0) \<noteq> endIP \<or>
         \<not> equalCommonTags (pool_Tags oldPool) (createCommonTags spec)
      then (updateOutcome resp2 err2, state,
            log @ [CallReadDhcpIpPool serverId poolId,
                   CallUpdateDhcpIpPool serverId poolId (desiredPool a spec gatewayIP startIP endIP)])
      else (Return None, state, log @ [CallReadDhcpIpPool serverId poolId]))"
  using assms unfolding advancedDHCPIPPoolTask_Ensure.simps [of a spec state log]
  by (simp add: desiredPool_def updateOutcome_def Let_def split: option.splits)

lemma pool_no_server:
  assumes "ServerID (AdvancedDHCP state) = None"
  shows "advancedDHCPIPPoolTask_Ensure a spec state log =
     (case cidrHost (WorkersNetwork spec) 1 of
        Inl err \<Rightarrow> (Return (Some (Wrapf err ''gateway IP'')), state, log)
      | Inr gatewayIP \<Rightarrow>
     (case cidrHost (WorkersNetwork spec) 10 of
        Inl err \<Rightarrow> (Return (Some (Wrapf err ''start IP of pool'')), state, log)
      | Inr startIP \<Rightarrow>
     (case cidrHost (WorkersNetwork spec) (- 1) of
        Inl err \<Rightarrow> (Return (Some (Wrapf err ''end IP of pool'')), state, log)
      | Inr endIP \<Rightarrow> (Panic, state, log))))"
  using assms unfolding advancedDHCPIPPoolTask_Ensure.simps [of a spec state log]
  by (simp add: Let_def split: sum.splits option.splits)

section \<open>Tag comparison\<close>

lemma findTag_iff: "findTag ai b \<longleftrightarrow> ai \<in> set b"
  by (induction b) auto

lemma allFound_iff: "allFound a b \<longleftrightarrow> set a \<subseteq> set b"
  by (induction a) (auto simp: findTag_iff)

lemma equalCommonTags_iff:
  "equalCommonTags a b \<longleftrightarrow> length a = length b \<and> set a \<subseteq> set b"
  by (simp add: equalCommonTags_def allFound_iff)

lemma equalCommonTags_refl: "equalCommonTags a a"
  by (simp add: equalCommonTags_iff)

lemma equalCommonTags_mset:
  assumes "mset a = mset b"
  shows "equalCommonTags a b"
proof -
  have "length a = length b" using assms by (rule mset_eq_length)
  moreover have "set a = set b" using assms by (rule mset_eq_setD)
  ultimately show ?thesis by (simp add: equalCommonTags_iff)
qed

lemma equalCommonTags_distinct:
  assumes "distinct a" and "equalCommonTags a b"
  shows "mset a = mset b"
proof -
  from assms(2) have len: "length a = length b" and sub: "set a \<subseteq> set b"
    by (simp_all add: equalCommonTags_iff)
  have "card (set a) = length a" using assms(1) by (rule distinct_card)
  moreover have "card (set b) \<le> length b" by (rule card_length)
  moreover have "card (set a) \<le> card (set b)" using sub by (simp add: card_mono)
  ultimately have cb: "card (set b) = length b" and ceq: "card (set a) = card (set b)"
    using len by simp_all
  have "set a = set b" using sub ceq by (simp add: card_subset_eq)
  moreover have "distinct b" using cb by (simp add: card_distinct)
  ultimately show ?thesis using assms(1) by (simp add: set_eq_iff_mset_eq_distinct)
qed

lemma equalOrderedStrings_iff: "equalOrderedStrings xs ys \<longleftrightarrow> xs = ys"
  by (induction xs ys rule: equalOrderedStrings.induct) auto

section \<open>Address derivation on concrete subnets\<close>

lemma parseCIDR_example: "parseCIDR ''10.0.0.0/24'' = Some (167772160, 24)"
  by (simp add: parseCIDR_def parseIPv4_def parseNat_def digitVal_def)
lemma cidrHost_gateway: "cidrHost ''10.0.0.0/24'' 1 = Inr ''10.0.0.1''"
  by (simp add: cidrHost_def parseCIDR_example hostAddress_def formatIPv4_def showNat_def digitChar_def)
lemma cidrHost_end: "cidrHost ''10.0.0.0/24'' (- 1) = Inr ''10.0.0.254''"
  by (simp add: cidrHost_def parseCIDR_example hostAddress_def formatIPv4_def showNat_def digitChar_def)
lemma cidrHostAndPrefix_server: "cidrHostAndPrefix ''10.0.0.0/24'' 2 = Inr ''10.0.0.2/24''"
  by (simp add: cidrHostAndPrefix_def parseCIDR_example hostAddress_def formatIPv4_def showNat_def digitChar_def)
lemma cidrHost_start: "cidrHost ''10.0.0.0/24'' 10 = Inr ''10.0.0.10''"
  by (simp add: cidrHost_def parseCIDR_example hostAddress_def formatIPv4_def showNat_def digitChar_def)
lemma cidrHost_small_gateway: "cidrHost ''10.0.0.0/30'' 1 = Inr ''10.0.0.1''"
  by (simp add: cidrHost_def parseCIDR_def parseIPv4_def parseNat_def digitVal_def hostAddress_def formatIPv4_def showNat_def digitChar_def)
lemma cidrHost_small: "cidrHost ''10.0.0.0/30'' 10 = Inl (AddressError ''host number does not fit the subnet'')"
  by (simp add: cidrHost_def parseCIDR_def parseIPv4_def parseNat_def digitVal_def hostAddress_def)
lemma cidrHost_bad: "cidrHost ''10.0.0.0/3x'' 1 = Inl (AddressError ''invalid CIDR'')"
  by (simp add: cidrHost_def parseCIDR_def parseIPv4_def parseNat_def digitVal_def hostAddress_def)
lemma cidrHost_other: "cidrHost ''192.168.17.77/20'' (- 1) = Inr ''192.168.31.254''"
  by (simp add: cidrHost_def parseCIDR_def parseIPv4_def parseNat_def digitVal_def hostAddress_def formatIPv4_def showNat_def digitChar_def)

section \<open>Deletion\<close>

lemma profile_EnsureDeleted_absent:
  "ProfileID (AdvancedDHCP state) = None \<Longrightarrow>
   advancedDHCPProfileTask_EnsureDeleted a spec state log = (Return (False, None), state, log)"
  by (simp add: advancedDHCPProfileTask_EnsureDeleted_def)

lemma server_EnsureDeleted_absent:
  "ServerID (AdvancedDHCP state) = None \<Longrightarrow>
   advancedDHCPServerTask_EnsureDeleted a spec state log = (Return (False, None), state, log)"
  by (simp add: advancedDHCPServerTask_EnsureDeleted_def)

lemma port_EnsureDeleted_absent:
  "PortID (AdvancedDHCP state) = None \<Longrightarrow>
   advancedDHCPPortTask_EnsureDeleted a spec state log = (Return (False, None), state, log)"
  by (simp add: advancedDHCPPortTask_EnsureDeleted_def)

lemma pool_EnsureDeleted_absent:
  "IPPoolID (AdvancedDHCP state) = None \<Longrightarrow>
   advancedDHCPIPPoolTask_EnsureDeleted a spec state log = (Return (False, None), state, log)"
  by (simp add: advancedDHCPIPPoolTask_EnsureDeleted_def)

text \<open>A deletion that returns without an error leaves the Reference absent.\<close>

lemma profile_EnsureDeleted_clears:
  "result (advancedDHCPProfileTask_EnsureDeleted a spec state log) = Return (b, None) \<Longrightarrow>
   ProfileID (AdvancedDHCP (stateAfter (advancedDHCPProfileTask_EnsureDeleted a spec state log))) = None"
  by (auto simp: advancedDHCPProfileTask_EnsureDeleted_def result_def stateAfter_def Let_def
           split: option.splits prod.splits if_splits)

lemma server_EnsureDeleted_clears:
  "result (advancedDHCPServerTask_EnsureDeleted a spec state log) = Return (b, None) \<Longrightarrow>
   ServerID (AdvancedDHCP (stateAfter (advancedDHCPServerTask_EnsureDeleted a spec state log))) = None"
  by (auto simp: advancedDHCPServerTask_EnsureDeleted_def result_def stateAfter_def Let_def
           split: option.splits prod.splits if_splits)

lemma port_EnsureDeleted_clears:
  "result (advancedDHCPPortTask_EnsureDeleted a spec state log) = Return (b, None) \<Longrightarrow>
   PortID (AdvancedDHCP (stateAfter (advancedDHCPPortTask_EnsureDeleted a spec state log))) = None"
  by (auto simp: advancedDHCPPortTask_EnsureDeleted_def result_def stateAfter_def Let_def
           split: option.splits prod.splits if_splits)

lemma pool_EnsureDeleted_clears:
  "result (advancedDHCPIPPoolTask_EnsureDeleted a spec state log) = Return (b, None) \<Longrightarrow>
   IPPoolID (AdvancedDHCP (stateAfter (advancedDHCPIPPoolTask_EnsureDeleted a spec state log))) = None"
  by (auto simp: advancedDHCPIPPoolTask_EnsureDeleted_def result_def stateAfter_def Let_def
           split: option.splits prod.splits if_splits)

text \<open>
  C8. \<^verbatim>\<open>EnsureDeleted\<close> of each owning task, on a state whose Reference for that task is
  nil, returns \<^verbatim>\<open>(false, nil)\<close>, leaves the state as it is and issues no call (the log is
  unchanged). Hence after an \<^verbatim>\<open>EnsureDeleted\<close> that returned without an error, a second
  \<^verbatim>\<open>EnsureDeleted\<close> (whatever the client would answer) returns \<^verbatim>\<open>(false, nil)\<close> and
  issues no call.
\<close>

theorem C8_EnsureDeleted_absent_reference:
  "(ProfileID (AdvancedDHCP state) = None \<longrightarrow>
      advancedDHCPProfileTask_EnsureDeleted a spec state log = (Return (False, None), state, log)) \<and>
   (ServerID (AdvancedDHCP state) = None \<longrightarrow>
      advancedDHCPServerTask_EnsureDeleted a spec state log = (Return (False, None), state, log)) \<and>
   (PortID (AdvancedDHCP state) = None \<longrightarrow>
      advancedDHCPPortTask_EnsureDeleted a spec state log = (Return (False, None), state, log)) \<and>
   (IPPoolID (AdvancedDHCP state) = None \<longrightarrow>
      advancedDHCPIPPoolTask_EnsureDeleted a spec state log = (Return (False, None), state, log)) \<and>
   (result (advancedDHCPProfileTask_EnsureDeleted a1 spec state1 log1) = Return (b1, None) \<longrightarrow>
      advancedDHCPProfileTask_EnsureDeleted a2 spec
        (stateAfter (advancedDHCPProfileTask_EnsureDeleted a1 spec state1 log1))
        (calls (advancedDHCPProfileTask_EnsureDeleted a1 spec state1 log1))
      = (Return (False, None),
         stateAfter (advancedDHCPProfileTask_EnsureDeleted a1 spec state1 log1),
         calls (advancedDHCPProfileTask_EnsureDeleted a1 spec state1 log1))) \<and>
   (result (advancedDHCPServerTask_EnsureDeleted a1 spec state1 log1) = Return (b2, None) \<longrightarrow>
      advancedDHCPServerTask_EnsureDeleted a2 spec
        (stateAfter (advancedDHCPServerTask_EnsureDeleted a1 spec state1 log1))
        (calls (advancedDHCPServerTask_EnsureDeleted a1 spec state1 log1))
      = (Return (False, None),
         stateAfter (advancedDHCPServerTask_EnsureDeleted a1 spec state1 log1),
         calls (advancedDHCPServerTask_EnsureDeleted a1 spec state1 log1))) \<and>
   (result (advancedDHCPPortTask_EnsureDeleted a1 spec state1 log1) = Return (b3, None) \<longrightarrow>
      advancedDHCPPortTask_EnsureDeleted a2 spec
        (stateAfter (advancedDHCPPortTask_EnsureDeleted a1 spec state1 log1))
        (calls (advancedDHCPPortTask_EnsureDeleted a1 spec state1 log1))
      = (Return (False, None),
         stateAfter (advancedDHCPPortTask_EnsureDeleted a1 spec state1 log1),
         calls (advancedDHCPPortTask_EnsureDeleted a1 spec state1 log1))) \<and>
   (result (advancedDHCPIPPoolTask_EnsureDeleted a1 spec state1 log1) = Return (b4, None) \<longrightarrow>
      advancedDHCPIPPoolTask_EnsureDeleted a2 spec
        (stateAfter (advancedDHCPIPPoolTask_EnsureDeleted a1 spec state1 log1))
        (calls (advancedDHCPIPPoolTask_EnsureDeleted a1 spec state1 log1))
      = (Return (False, None),
         stateAfter (advancedDHCPIPPoolTask_EnsureDeleted a1 spec state1 log1),
         calls (advancedDHCPIPPoolTask_EnsureDeleted a1 spec state1 log1)))"
  by (simp add: profile_EnsureDeleted_absent server_EnsureDeleted_absent
        port_EnsureDeleted_absent pool_EnsureDeleted_absent
        profile_EnsureDeleted_clears server_EnsureDeleted_clears
        port_EnsureDeleted_clears pool_EnsureDeleted_clears)

theorem C8_EnsureDeleted_absent_reference_witness:
  "(ProfileID (AdvancedDHCP (exampleState None None None None None None)) = None \<and>
    ServerID (AdvancedDHCP (exampleState None None None None None None)) = None \<and>
    PortID (AdvancedDHCP (exampleState None None None None None None)) = None \<and>
    IPPoolID (AdvancedDHCP (exampleState None None None None None None)) = None \<and>
    result (advancedDHCPProfileTask_EnsureDeleted (exampleClient (ok 200) (ok 200)) exampleSpec
      (exampleState (Some ''ec-1'') (Some ''profile-1'') (Some ''server-1'') (Some ''switch-1'')
         (Some ''port-1'') (Some ''pool-1'')) []) = Return (True, None) \<and>
    result (advancedDHCPServerTask_EnsureDeleted (exampleClient (ok 200) (ok 200)) exampleSpec
      (exampleState (Some ''ec-1'') (Some ''profile-1'') (Some ''server-1'') (Some ''switch-1'')
         (Some ''port-1'') (Some ''pool-1'')) []) = Return (True, None) \<and>
    result (advancedDHCPPortTask_EnsureDeleted (exampleClient (ok 200) (ok 200)) exampleSpec
      (exampleState (Some ''ec-1'') (Some ''profile-1'') (Some ''server-1'') (Some ''switch-1'')
         (Some ''port-1'') (Some ''pool-1'')) []) = Return (True, None) \<and>
    result (advancedDHCPIPPoolTask_EnsureDeleted (exampleClient (ok 200) (ok 200)) exampleSpec
      (exampleState (Some ''ec-1'') (Some ''profile-1'') (Some ''server-1'') (Some ''switch-1'')
         (Some ''port-1'') (Some ''pool-1'')) []) = Return (True, None)) \<and>
   advancedDHCPProfileTask_EnsureDeleted (exampleClient (ok 200) (ok 200)) exampleSpec
      (exampleState None None None None None None) []
     = (Return (False, None), exampleState None None None None None None, []) \<and>
   advancedDHCPIPPoolTask_EnsureDeleted (exampleClient (ok 200) (ok 200)) exampleSpec
      (exampleState None None None None None None) []
     = (Return (False, None), exampleState None None None None None None, []) \<and>
   advancedDHCPServerTask_EnsureDeleted (exampleClient (ok 200) (ok 200)) exampleSpec
      (exampleState (Some ''ec-1'') (Some ''profile-1'') None (Some ''switch-1'')
         (Some ''port-1'') (Some ''pool-1'')) [CallDeleteDhcpServer ''server-1'']
     = (Return (False, None),
        exampleState (Some ''ec-1'') (Some ''profile-1'') None (Some ''switch-1'')
         (Some ''port-1'') (Some ''pool-1''), [CallDeleteDhcpServer ''server-1''])"
proof -
  let ?none = "exampleState None None None None None None"
  let ?full = "exampleState (Some ''ec-1'') (Some ''profile-1'') (Some ''server-1'')
                 (Some ''switch-1'') (Some ''port-1'') (Some ''pool-1'')"
  let ?cl = "exampleClient (ok 200) (ok 200)"
  have hyps:
    "ProfileID (AdvancedDHCP ?none) = None" "ServerID (AdvancedDHCP ?none) = None"
    "PortID (AdvancedDHCP ?none) = None" "IPPoolID (AdvancedDHCP ?none) = None"
    by (simp_all add: exampleState_def)
  have first:
    "advancedDHCPProfileTask_EnsureDeleted ?cl exampleSpec ?full []
       = (Return (True, None),
          exampleState (Some ''ec-1'') None (Some ''server-1'') (Some ''switch-1'')
            (Some ''port-1'') (Some ''pool-1''), [CallDeleteDhcpProfile ''profile-1''])"
    "advancedDHCPServerTask_EnsureDeleted ?cl exampleSpec ?full []
       = (Return (True, None),
          exampleState (Some ''ec-1'') (Some ''profile-1'') None (Some ''switch-1'')
            (Some ''port-1'') (Some ''pool-1''), [CallDeleteDhcpServer ''server-1''])"
    "advancedDHCPPortTask_EnsureDeleted ?cl exampleSpec ?full []
       = (Return (True, None),
          exampleState (Some ''ec-1'') (Some ''profile-1'') (Some ''server-1'') (Some ''switch-1'')
            None (Some ''pool-1''), [CallDeleteLogicalPort ''port-1'' True])"
    "advancedDHCPIPPoolTask_EnsureDeleted ?cl exampleSpec ?full []
       = (Return (True, None),
          exampleState (Some ''ec-1'') (Some ''profile-1'') (Some ''server-1'') (Some ''switch-1'')
            (Some ''port-1'') None, [CallDeleteDhcpIpPool ''server-1'' ''pool-1''])"
    by (simp_all add: advancedDHCPProfileTask_EnsureDeleted_def
          advancedDHCPServerTask_EnsureDeleted_def advancedDHCPPortTask_EnsureDeleted_def
          advancedDHCPIPPoolTask_EnsureDeleted_def exampleState_def exampleClient_def ok_def
          respNotFound_def StatusNotFound_def)
  show ?thesis
    using C8_EnsureDeleted_absent_reference
            [where state = "?none" and a = "?cl" and spec = exampleSpec and log = "[]"
               and ?a1.0 = "?cl" and ?a2.0 = "?cl" and ?state1.0 = "?full" and ?log1.0 = "[]"
               and ?b1.0 = True and ?b2.0 = True and ?b3.0 = True and ?b4.0 = True]
          hyps
    by (simp add: first result_def stateAfter_def calls_def)
qed

text \<open>
  C7. When the delete call of an owning task answers with HTTP 404, \<^verbatim>\<open>EnsureDeleted\<close> sets
  the task's Reference to nil and returns \<^verbatim>\<open>(false, nil)\<close>: no error, nothing deleted. When
  the delete call answers with an error and the response is not a 404, \<^verbatim>\<open>EnsureDeleted\<close>
  returns \<^verbatim>\<open>(false, err)\<close> and leaves the state, and so the Reference, as it was. (The
  pool's delete call is issued only with the server Reference present, which it
  dereferences.)
\<close>

theorem C7_EnsureDeleted_not_found_is_success:
  "(ProfileID (AdvancedDHCP state) = Some profileId \<and>
    respNotFound (fst (DeleteDhcpProfile a profileId)) \<longrightarrow>
      advancedDHCPProfileTask_EnsureDeleted a spec state log =
        (Return (False, None),
         state\<lparr>AdvancedDHCP := (AdvancedDHCP state)\<lparr>ProfileID := None\<rparr>\<rparr>,
         log @ [CallDeleteDhcpProfile profileId])) \<and>
   (ServerID (AdvancedDHCP state) = Some serverId \<and>
    respNotFound (fst (DeleteDhcpServer a serverId)) \<longrightarrow>
      advancedDHCPServerTask_EnsureDeleted a spec state log =
        (Return (False, None),
         state\<lparr>AdvancedDHCP := (AdvancedDHCP state)\<lparr>ServerID := None\<rparr>\<rparr>,
         log @ [CallDeleteDhcpServer serverId])) \<and>
   (PortID (AdvancedDHCP state) = Some portId \<and>
    respNotFound (fst (DeleteLogicalPort a portId True)) \<longrightarrow>
      advancedDHCPPortTask_EnsureDeleted a spec state log =
        (Return (False, None),
         state\<lparr>AdvancedDHCP := (AdvancedDHCP state)\<lparr>PortID := None\<rparr>\<rparr>,
         log @ [CallDeleteLogicalPort portId True])) \<and>
   (IPPoolID (AdvancedDHCP state) = Some poolId \<and> ServerID (AdvancedDHCP state) = Some serverId \<and>
    respNotFound (fst (DeleteDhcpIpPool a serverId poolId)) \<longrightarrow>
      advancedDHCPIPPoolTask_EnsureDeleted a spec state log =
        (Return (False, None),
         state\<lparr>AdvancedDHCP := (AdvancedDHCP state)\<lparr>IPPoolID := None\<rparr>\<rparr>,
         log @ [CallDeleteDhcpIpPool serverId poolId])) \<and>
   (ProfileID (AdvancedDHCP state) = Some profileId \<and>
    \<not> respNotFound (fst (DeleteDhcpProfile a' profileId)) \<and>
    snd (DeleteDhcpProfile a' profileId) = Some e1 \<longrightarrow>
      advancedDHCPProfileTask_EnsureDeleted a' spec state log =
        (Return (False, Some e1), state, log @ [CallDeleteDhcpProfile profileId])) \<and>
   (ServerID (AdvancedDHCP state) = Some serverId \<and>
    \<not> respNotFound (fst (DeleteDhcpServer a' serverId)) \<and>
    snd (DeleteDhcpServer a' serverId) = Some e2 \<longrightarrow>
      advancedDHCPServerTask_EnsureDeleted a' spec state log =
        (Return (False, Some e2), state, log @ [CallDeleteDhcpServer serverId])) \<and>
   (PortID (AdvancedDHCP state) = Some portId \<and>
    \<not> respNotFound (fst (DeleteLogicalPort a' portId True)) \<and>
    snd (DeleteLogicalPort a' portId True) = Some e3 \<longrightarrow>
      advancedDHCPPortTask_EnsureDeleted a' spec state log =
        (Return (False, Some e3), state, log @ [CallDeleteLogicalPort portId True])) \<and>
   (IPPoolID (AdvancedDHCP state) = Some poolId \<and> ServerID (AdvancedDHCP state) = Some serverId \<and>
    \<not> respNotFound (fst (DeleteDhcpIpPool a' serverId poolId)) \<and>
    snd (DeleteDhcpIpPool a' serverId poolId) = Some e4 \<longrightarrow>
      advancedDHCPIPPoolTask_EnsureDeleted a' spec state log =
        (Return (False, Some e4), state, log @ [CallDeleteDhcpIpPool serverId poolId]))"
  by (simp add: advancedDHCPProfileTask_EnsureDeleted_def
        advancedDHCPServerTask_EnsureDeleted_def advancedDHCPPortTask_EnsureDeleted_def
        advancedDHCPIPPoolTask_EnsureDeleted_def Let_def split: prod.splits)

theorem C7_EnsureDeleted_not_found_is_success_witness:
  "(ProfileID (AdvancedDHCP (exampleState (Some ''ec-1'') (Some ''profile-1'') (Some ''server-1'')
        (Some ''switch-1'') (Some ''port-1'') (Some ''pool-1''))) = Some ''profile-1'' \<and>
    ServerID (AdvancedDHCP (exampleState (Some ''ec-1'') (Some ''profile-1'') (Some ''server-1'')
        (Some ''switch-1'') (Some ''port-1'') (Some ''pool-1''))) = Some ''server-1'' \<and>
    PortID (AdvancedDHCP (exampleState (Some ''ec-1'') (Some ''profile-1'') (Some ''server-1'')
        (Some ''switch-1'') (Some ''port-1'') (Some ''pool-1''))) = Some ''port-1'' \<and>
    IPPoolID (AdvancedDHCP (exampleState (Some ''ec-1'') (Some ''profile-1'') (Some ''server-1'')
        (Some ''switch-1'') (Some ''port-1'') (Some ''pool-1''))) = Some ''pool-1'' \<and>
    respNotFound (fst (DeleteDhcpProfile (exampleClient (failing 404 ''gone'') (ok 200)) ''profile-1'')) \<and>
    respNotFound (fst (DeleteDhcpServer (exampleClient (failing 404 ''gone'') (ok 200)) ''server-1'')) \<and>
    respNotFound (fst (DeleteLogicalPort (exampleClient (failing 404 ''gone'') (ok 200)) ''port-1'' True)) \<and>
    respNotFound (fst (DeleteDhcpIpPool (exampleClient (failing 404 ''gone'') (ok 200)) ''server-1'' ''pool-1'')) \<and>
    \<not> respNotFound (fst (DeleteDhcpProfile (exampleClient (failing 409 ''in use'') (ok 200)) ''profile-1'')) \<and>
    snd (DeleteDhcpProfile (exampleClient (failing 409 ''in use'') (ok 200)) ''profile-1'')
      = Some (ClientError ''in use'') \<and>
    \<not> respNotFound (fst (DeleteDhcpServer (exampleClient (failing 409 ''in use'') (ok 200)) ''server-1'')) \<and>
    snd (DeleteDhcpServer (exampleClient (failing 409 ''in use'') (ok 200)) ''server-1'')
      = Some (ClientError ''in use'') \<and>
    \<not> respNotFound (fst (DeleteLogicalPort (exampleClient (failing 409 ''in use'') (ok 200)) ''port-1'' True)) \<and>
    snd (DeleteLogicalPort (exampleClient (failing 409 ''in use'') (ok 200)) ''port-1'' True)
      = Some (ClientError ''in use'') \<and>
    \<not> respNotFound (fst (DeleteDhcpIpPool (exampleClient (failing 409 ''in use'') (ok 200)) ''server-1'' ''pool-1'')) \<and>
    snd (DeleteDhcpIpPool (exampleClient (failing 409 ''in use'') (ok 200)) ''server-1'' ''pool-1'')
      = Some (ClientError ''in use'')) \<and>
   advancedDHCPProfileTask_EnsureDeleted (exampleClient (failing 404 ''gone'') (ok 200)) exampleSpec
     (exampleState (Some ''ec-1'') (Some ''profile-1'') (Some ''server-1'')
        (Some ''switch-1'') (Some ''port-1'') (Some ''pool-1'')) []
     = (Return (False, None),
        exampleState (Some ''ec-1'') None (Some ''server-1'')
          (Some ''switch-1'') (Some ''port-1'') (Some ''pool-1''),
        [CallDeleteDhcpProfile ''profile-1'']) \<and>
   advancedDHCPIPPoolTask_EnsureDeleted (exampleClient (failing 404 ''gone'') (ok 200)) exampleSpec
     (exampleState (Some ''ec-1'') (Some ''profile-1'') (Some ''server-1'')
        (Some ''switch-1'') (Some ''port-1'') (Some ''pool-1'')) []
     = (Return (False, None),
        exampleState (Some ''ec-1'') (Some ''profile-1'') (Some ''server-1'')
          (Some ''switch-1'') (Some ''port-1'') None,
        [CallDeleteDhcpIpPool ''server-1'' ''pool-1'']) \<and>
   advancedDHCPServerTask_EnsureDeleted (exampleClient (failing 409 ''in use'') (ok 200)) exampleSpec
     (exampleState (Some ''ec-1'') (Some ''profile-1'') (Some ''server-1'')
        (Some ''switch-1'') (Some ''port-1'') (Some ''pool-1'')) []
     = (Return (False, Some (ClientError ''in use'')),
        exampleState (Some ''ec-1'') (Some ''profile-1'') (Some ''server-1'')
          (Some ''switch-1'') (Some ''port-1'') (Some ''pool-1''),
        [CallDeleteDhcpServer ''server-1'']) \<and>
   advancedDHCPPortTask_EnsureDeleted (exampleClient (failing 409 ''in use'') (ok 200)) exampleSpec
     (exampleState (Some ''ec-1'') (Some ''profile-1'') (Some ''server-1'')
        (Some ''switch-1'') (Some ''port-1'') (Some ''pool-1'')) []
     = (Return (False, Some (ClientError ''in use'')),
        exampleState (Some ''ec-1'') (Some ''profile-1'') (Some ''server-1'')
          (Some ''switch-1'') (Some ''port-1'') (Some ''pool-1''),
        [CallDeleteLogicalPort ''port-1'' True])"
proof -
  let ?full = "exampleState (Some ''ec-1'') (Some ''profile-1'') (Some ''server-1'')
                 (Some ''switch-1'') (Some ''port-1'') (Some ''pool-1'')"
  let ?gone = "exampleClient (failing 404 ''gone'') (ok 200)"
  let ?busy = "exampleClient (failing 409 ''in use'') (ok 200)"
  have ids:
    "ProfileID (AdvancedDHCP ?full) = Some ''profile-1''"
    "ServerID (AdvancedDHCP ?full) = Some ''server-1''"
    "PortID (AdvancedDHCP ?full) = Some ''port-1''"
    "IPPoolID (AdvancedDHCP ?full) = Some ''pool-1''"
    by (simp_all add: exampleState_def)
  have gone:
    "respNotFound (fst (DeleteDhcpProfile ?gone ''profile-1''))"
    "respNotFound (fst (DeleteDhcpServer ?gone ''server-1''))"
    "respNotFound (fst (DeleteLogicalPort ?gone ''port-1'' True))"
    "respNotFound (fst (DeleteDhcpIpPool ?gone ''server-1'' ''pool-1''))"
    by (simp_all add: exampleClient_def failing_def respNotFound_def StatusNotFound_def)
  have busy:
    "\<not> respNotFound (fst (DeleteDhcpProfile ?busy ''profile-1''))"
    "snd (DeleteDhcpProfile ?busy ''profile-1'') = Some (ClientError ''in use'')"
    "\<not> respNotFound (fst (DeleteDhcpServer ?busy ''server-1''))"
    "snd (DeleteDhcpServer ?busy ''server-1'') = Some (ClientError ''in use'')"
    "\<not> respNotFound (fst (DeleteLogicalPort ?busy ''port-1'' True))"
    "snd (DeleteLogicalPort ?busy ''port-1'' True) = Some (ClientError ''in use'')"
    "\<not> respNotFound (fst (DeleteDhcpIpPool ?busy ''server-1'' ''pool-1''))"
    "snd (DeleteDhcpIpPool ?busy ''server-1'' ''pool-1'') = Some (ClientError ''in use'')"
    by (simp_all add: exampleClient_def failing_def respNotFound_def StatusNotFound_def)
  have upd:
    "?full\<lparr>AdvancedDHCP := (AdvancedDHCP ?full)\<lparr>ProfileID := None\<rparr>\<rparr>
       = exampleState (Some ''ec-1'') None (Some ''server-1'')
          (Some ''switch-1'') (Some ''port-1'') (Some ''pool-1'')"
    "?full\<lparr>AdvancedDHCP := (AdvancedDHCP ?full)\<lparr>IPPoolID := None\<rparr>\<rparr>
       = exampleState (Some ''ec-1'') (Some ''profile-1'') (Some ''server-1'')
          (Some ''switch-1'') (Some ''port-1'') None"
    by (simp_all add: exampleState_def)
  show ?thesis
    using C7_EnsureDeleted_not_found_is_success
            [where state = "?full" and a = "?gone" and a' = "?busy" and spec = exampleSpec
               and log = "[]" and profileId = "''profile-1''" and serverId = "''server-1''"
               and portId = "''port-1''" and poolId = "''pool-1''"
               and ?e1.0 = "ClientError ''in use''" and ?e2.0 = "ClientError ''in use''"
               and ?e3.0 = "ClientError ''in use''" and ?e4.0 = "ClientError ''in use''"]
    by (simp only: ids gone busy upd simp_thms append_Nil)
qed

section \<open>Reference accessors\<close>

text \<open>
  C10. The claim is that every task's \<^verbatim>\<open>reference\<close> accessor returns the Reference of its
  own resource, the profile task's one built from \<^verbatim>\<open>ProfileID\<close>. The profile task's
  accessor reads \<^verbatim>\<open>PortID\<close> instead (line 63): with a profile identifier stored and no
  port it returns the nil Reference, and with only a port identifier stored it returns
  the port's Reference.
\<close>

theorem C10_profile_reference_reads_PortID:
  "advancedDHCPProfileTask_reference
     (exampleState (Some ''ec-1'') (Some ''profile-1'') None None None None) = None \<and>
   advancedDHCPProfileTask_reference
     (exampleState None None None None (Some ''port-1'') None) = Some \<lparr>ID = ''port-1''\<rparr>"
  by (simp add: advancedDHCPProfileTask_reference_def toReference_def exampleState_def)

text \<open>The accessors of the other five tasks read the task's own identifier.\<close>

lemma other_references:
  "advancedLookupEdgeClusterTask_reference state = toReference (EdgeClusterID (AdvancedDHCP state))"
  "advancedDHCPServerTask_reference state = toReference (ServerID (AdvancedDHCP state))"
  "advancedLookupLogicalSwitchTask_reference state = toReference (LogicalSwitchID (AdvancedDHCP state))"
  "advancedDHCPPortTask_reference state = toReference (PortID (AdvancedDHCP state))"
  "advancedDHCPIPPoolTask_reference state = toReference (IPPoolID (AdvancedDHCP state))"
  by (simp_all add: advancedLookupEdgeClusterTask_reference_def
        advancedDHCPServerTask_reference_def advancedLookupLogicalSwitchTask_reference_def
        advancedDHCPPortTask_reference_def advancedDHCPIPPoolTask_reference_def)

section \<open>The status of the list calls\<close>

text \<open>
  C2. The claim is that a response whose status is not the expected one, with a nil
  error, makes every task return an error, the edge cluster lookup in particular. The
  edge cluster lookup discards the response of \<^verbatim>\<open>ListEdgeClusters\<close> (line 43): with the
  call answering status 201 and a nil error it stores the identifier of the cluster
  found and returns nil. The logical switch lookup, whose list call is given the same
  answer, returns the unexpected-status error (lines 226 to 228).
\<close>

theorem C2_edge_cluster_lookup_ignores_status:
  "advancedLookupEdgeClusterTask_Ensure (exampleClient (ok 201) (ok 200)) exampleSpec
     (exampleState None None None None None None) []
     = (Return None, exampleState (Some ''ec-1'') None None None None None,
        [CallListEdgeClusters]) \<and>
   advancedLookupLogicalSwitchTask_Ensure (exampleClient (ok 201) (ok 200)) exampleSpec
     (exampleState None None None None None None) []
     = (Return (Some (UnexpectedStatus ''listing'' 201)),
        exampleState None None None None None None, [CallListLogicalSwitches])"
  by (simp add: advancedLookupEdgeClusterTask_Ensure_def
        advancedLookupLogicalSwitchTask_Ensure_def exampleClient_def exampleSpec_def
        exampleState_def ok_def StatusOK_def Let_def)

text \<open>
  Whatever the response of \<^verbatim>\<open>ListEdgeClusters\<close> is, nil included, the lookup does the same:
  only the error and the list returned decide.
\<close>

lemma edge_cluster_lookup_any_response:
  assumes "ListEdgeClusters a = (objs, resp, err)"
    and "ListEdgeClusters a' = (objs, resp', err)"
  shows "advancedLookupEdgeClusterTask_Ensure a spec state log =
         advancedLookupEdgeClusterTask_Ensure a' spec state log"
  using assms by (simp add: advancedLookupEdgeClusterTask_Ensure_def)

section \<open>Idempotence\<close>

lemma exampleSpec_addresses:
  "cidrHost (WorkersNetwork exampleSpec) 1 = Inr ''10.0.0.1''"
  "cidrHostAndPrefix (WorkersNetwork exampleSpec) 2 = Inr ''10.0.0.2/24''"
  "cidrHost (WorkersNetwork exampleSpec) 10 = Inr ''10.0.0.10''"
  "cidrHost (WorkersNetwork exampleSpec) (- 1) = Inr ''10.0.0.254''"
  by (simp_all add: exampleSpec_def cidrHost_gateway cidrHostAndPrefix_server cidrHost_start
        cidrHost_end)

lemma desired_examples:
  "description (exampleClient rd wr) = ''managed by gardener''"
  "desiredProfile (exampleClient rd wr) exampleSpec ''ec-1'' = exampleProfile"
  "desiredServer (exampleClient rd wr) exampleSpec ''profile-1'' ''10.0.0.2/24'' ''10.0.0.1''
     = exampleServer"
  "desiredPort (exampleClient rd wr) exampleSpec ''server-1'' ''switch-1'' = examplePort"
  "desiredPool (exampleClient rd wr) exampleSpec ''10.0.0.1'' ''10.0.0.10'' ''10.0.0.254''
     = examplePool"
  by (simp_all add: exampleClient_def exampleSpec_def desiredProfile_def exampleProfile_def
        desiredServer_def exampleServer_def desiredPort_def examplePort_def desiredPool_def
        examplePool_def)

text \<open>
  C1. The claim is that an \<^verbatim>\<open>Ensure\<close> which reads back an object identical to the desired
  one issues no write. The pool task tests the two thresholds with \<^verbatim>\<open>==\<close> (lines 370 and
  371), so a pool read back with \<^verbatim>\<open>ErrorThreshold = 98\<close> and \<^verbatim>\<open>WarningThreshold = 70\<close>, and
  equal to the desired pool in every other field, is updated all the same.
\<close>

theorem C1_pool_updates_identical_pool:
  "advancedDHCPIPPoolTask_Ensure (exampleClient (ok 200) (ok 200)) exampleSpec
     (exampleState (Some ''ec-1'') (Some ''profile-1'') (Some ''server-1'') (Some ''switch-1'')
        (Some ''port-1'') (Some ''pool-1'')) []
     = (Return None,
        exampleState (Some ''ec-1'') (Some ''profile-1'') (Some ''server-1'') (Some ''switch-1'')
          (Some ''port-1'') (Some ''pool-1''),
        [CallReadDhcpIpPool ''server-1'' ''pool-1'',
         CallUpdateDhcpIpPool ''server-1'' ''pool-1'' examplePool]) \<and>
   fst (ReadDhcpIpPool (exampleClient (ok 200) (ok 200)) ''server-1'' ''pool-1'')
     = examplePool\<lparr>pool_Id := ''pool-1''\<rparr>"
proof -
  let ?a = "exampleClient (ok 200) (ok 200)"
  let ?st = "exampleState (Some ''ec-1'') (Some ''profile-1'') (Some ''server-1'')
               (Some ''switch-1'') (Some ''port-1'') (Some ''pool-1'')"
  have rd: "ReadDhcpIpPool ?a ''server-1'' ''pool-1''
              = (examplePool\<lparr>pool_Id := ''pool-1''\<rparr>, Some \<lparr>StatusCode = 200\<rparr>, None)"
    by (simp add: exampleClient_def ok_def)
  have up: "UpdateDhcpIpPool ?a ''server-1'' ''pool-1''
              (desiredPool ?a exampleSpec ''10.0.0.1'' ''10.0.0.10'' ''10.0.0.254'')
              = (examplePool\<lparr>pool_Id := ''pool-1''\<rparr>, Some \<lparr>StatusCode = 200\<rparr>, None)"
    by (simp add: desired_examples) (simp add: exampleClient_def ok_def)
  have nf: "\<not> respNotFound (Some \<lparr>StatusCode = 200\<rparr>)"
    by (simp add: respNotFound_def StatusNotFound_def)
  have ids: "IPPoolID (AdvancedDHCP ?st) = Some ''pool-1''"
    "ServerID (AdvancedDHCP ?st) = Some ''server-1''"
    by (simp_all add: exampleState_def)
  have "advancedDHCPIPPoolTask_Ensure ?a exampleSpec ?st []
     = (Return None, ?st,
        [CallReadDhcpIpPool ''server-1'' ''pool-1'',
         CallUpdateDhcpIpPool ''server-1'' ''pool-1'' examplePool])"
    by (simp add: pool_found [OF exampleSpec_addresses(1,3,4) ids rd nf up])
       (simp add: desired_examples examplePool_def updateOutcome_def StatusOK_def)
  then show ?thesis using rd by simp
qed

text \<open>
  The other three owning tasks do what the claim says: an object read back equal to the
  desired one in every compared field leads to no call after the read.
\<close>

lemma profile_idempotent:
  assumes "EdgeClusterID (AdvancedDHCP state) = Some ecid"
    and "ProfileID (AdvancedDHCP state) = Some pid"
    and "ReadDhcpProfile a pid = (oldProfile, resp, None)"
    and "\<not> respNotFound resp"
    and "prof_DisplayName oldProfile = FullClusterName spec"
    and "prof_EdgeClusterId oldProfile = ecid"
    and "prof_Tags oldProfile = createCommonTags spec"
  shows "advancedDHCPProfileTask_Ensure a spec state log =
           (Return None, state, log @ [CallReadDhcpProfile pid])"
proof -
  obtain u r e where "UpdateDhcpProfile a pid (desiredProfile a spec ecid) = (u, r, e)"
    by (cases "UpdateDhcpProfile a pid (desiredProfile a spec ecid)")
  from profile_found [OF assms(1-4) this] show ?thesis
    using assms(5-7) by (simp add: equalCommonTags_refl)
qed

lemma server_idempotent:
  assumes "cidrHostAndPrefix (WorkersNetwork spec) 2 = Inr dhcpServerIP"
    and "cidrHost (WorkersNetwork spec) 1 = Inr gatewayIP"
    and "ProfileID (AdvancedDHCP state) = Some profileId"
    and "ServerID (AdvancedDHCP state) = Some sid"
    and "ReadDhcpServer a sid = (oldServer, resp, None)"
    and "\<not> respNotFound resp"
    and "srv_DisplayName oldServer = FullClusterName spec"
    and "srv_DhcpProfileId oldServer = profileId"
    and "srv_Ipv4DhcpServer oldServer =
           Some \<lparr>DhcpServerIp = dhcpServerIP, DnsNameservers = DNSServers spec,
                 GatewayIp = gatewayIP\<rparr>"
    and "mset (srv_Tags oldServer) = mset (createCommonTags spec)"
  shows "advancedDHCPServerTask_Ensure a spec state log =
           (Return None, state, log @ [CallReadDhcpServer sid])"
proof -
  obtain u r e where
    "UpdateDhcpServer a sid (desiredServer a spec profileId dhcpServerIP gatewayIP) = (u, r, e)"
    by (cases "UpdateDhcpServer a sid (desiredServer a spec profileId dhcpServerIP gatewayIP)")
  from server_found [OF assms(1-6) this] show ?thesis
    using assms(7-10) by (simp add: equalCommonTags_mset equalOrderedStrings_iff)
qed

lemma port_idempotent:
  assumes "ServerID (AdvancedDHCP state) = Some serverId"
    and "LogicalSwitchID (AdvancedDHCP state) = Some switchId"
    and "PortID (AdvancedDHCP state) = Some pid"
    and "GetLogicalPort a pid = (oldPort, resp, None)"
    and "\<not> respNotFound resp"
    and "port_DisplayName oldPort = FullClusterName spec"
    and "port_LogicalSwitchId oldPort = switchId"
    and "port_AdminState oldPort = ''UP''"
    and "port_Attachment oldPort = Some \<lparr>AttachmentType = ''DHCP_SERVICE'', att_Id = serverId\<rparr>"
    and "port_Tags oldPort = createCommonTags spec"
  shows "advancedDHCPPortTask_Ensure a spec state log =
           (Return None, state, log @ [CallGetLogicalPort pid])"
proof -
  obtain u r e where "UpdateLogicalPort a pid (desiredPort a spec serverId switchId) = (u, r, e)"
    by (cases "UpdateLogicalPort a pid (desiredPort a spec serverId switchId)")
  from port_found [OF assms(1-5) this] show ?thesis
    using assms(6-10) by (simp add: equalCommonTags_refl)
qed

text \<open>
  The pool task issues the update whenever one of the two thresholds read back equals the
  desired one, whatever the other fields are.
\<close>

lemma pool_updates_on_equal_threshold:
  assumes "cidrHost (WorkersNetwork spec) 1 = Inr gatewayIP"
    and "cidrHost (WorkersNetwork spec) 10 = Inr startIP"
    and "cidrHost (WorkersNetwork spec) (- 1) = Inr endIP"
    and "IPPoolID (AdvancedDHCP state) = Some poolId"
    and "ServerID (AdvancedDHCP state) = Some serverId"
    and "ReadDhcpIpPool a serverId poolId = (oldPool, resp, None)"
    and "\<not> respNotFound resp"
    and "pool_ErrorThreshold oldPool = 98 \<or> pool_WarningThreshold oldPool = 70"
  shows "calls (advancedDHCPIPPoolTask_Ensure a spec state log) =
           log @ [CallReadDhcpIpPool serverId poolId,
                  CallUpdateDhcpIpPool serverId poolId (desiredPool a spec gatewayIP startIP endIP)]"
proof -
  obtain u r e where
    "UpdateDhcpIpPool a serverId poolId (desiredPool a spec gatewayIP startIP endIP) = (u, r, e)"
    by (cases "UpdateDhcpIpPool a serverId poolId (desiredPool a spec gatewayIP startIP endIP)")
  from pool_found [OF assms(1-7) this] show ?thesis
    using assms(8) by (auto simp: calls_def)
qed

section \<open>The pool task without a server\<close>

text \<open>
  C3, as claimed: with the server Reference nil the pool task returns an error and does
  not crash. It does not hold: on the subnet \<^verbatim>\<open>10.0.0.0/24\<close>, with no server and no pool
  stored, the three addresses derive, and the create call dereferences the nil
  \<^verbatim>\<open>ServerID\<close> (line 387): the method panics, it does not return.
\<close>

theorem C3_pool_without_server_panics:
  "advancedDHCPIPPoolTask_Ensure (exampleClient (ok 200) (ok 201)) exampleSpec
     (exampleState (Some ''ec-1'') (Some ''profile-1'') None (Some ''switch-1'') None None) []
     = (Panic,
        exampleState (Some ''ec-1'') (Some ''profile-1'') None (Some ''switch-1'') None None, [])"
  by (simp add: pool_no_server exampleState_def)
     (simp add: exampleSpec_def cidrHost_gateway cidrHost_start cidrHost_end)

text \<open>
  C3, amended: with the server Reference nil the pool task issues no call at all (no
  read, no create, no update), leaves the state as it is and does not succeed. When the
  three pool addresses derive from the worker subnet it stops with the nil-pointer panic;
  otherwise it returns the error of the first address that does not derive (gateway,
  then pool start, then pool end), wrapped with the name of that address.
\<close>

theorem C3_pool_without_server:
  assumes "ServerID (AdvancedDHCP state) = None"
  shows "calls (advancedDHCPIPPoolTask_Ensure a spec state log) = log \<and>
         stateAfter (advancedDHCPIPPoolTask_Ensure a spec state log) = state \<and>
         result (advancedDHCPIPPoolTask_Ensure a spec state log) \<noteq> Return None \<and>
         (result (advancedDHCPIPPoolTask_Ensure a spec state log) = Panic \<longleftrightarrow>
            \<not> isl (cidrHost (WorkersNetwork spec) 1) \<and>
            \<not> isl (cidrHost (WorkersNetwork spec) 10) \<and>
            \<not> isl (cidrHost (WorkersNetwork spec) (- 1))) \<and>
         result (advancedDHCPIPPoolTask_Ensure a spec state log) =
           (case cidrHost (WorkersNetwork spec) 1 of
              Inl err \<Rightarrow> Return (Some (Wrapf err ''gateway IP''))
            | Inr gatewayIP \<Rightarrow>
           (case cidrHost (WorkersNetwork spec) 10 of
              Inl err \<Rightarrow> Return (Some (Wrapf err ''start IP of pool''))
            | Inr startIP \<Rightarrow>
           (case cidrHost (WorkersNetwork spec) (- 1) of
              Inl err \<Rightarrow> Return (Some (Wrapf err ''end IP of pool''))
            | Inr endIP \<Rightarrow> Panic)))"
  by (simp add: pool_no_server [OF assms] calls_def stateAfter_def result_def split: sum.splits)

theorem C3_pool_without_server_witness:
  "ServerID (AdvancedDHCP
     (exampleState (Some ''ec-1'') (Some ''profile-1'') None (Some ''switch-1'') None
        (Some ''pool-1''))) = None \<and>
   calls (advancedDHCPIPPoolTask_Ensure (exampleClient (ok 200) (ok 201)) exampleSpec
     (exampleState (Some ''ec-1'') (Some ''profile-1'') None (Some ''switch-1'') None
        (Some ''pool-1'')) []) = [] \<and>
   stateAfter (advancedDHCPIPPoolTask_Ensure (exampleClient (ok 200) (ok 201)) exampleSpec
     (exampleState (Some ''ec-1'') (Some ''profile-1'') None (Some ''switch-1'') None
        (Some ''pool-1'')) [])
     = exampleState (Some ''ec-1'') (Some ''profile-1'') None (Some ''switch-1'') None
        (Some ''pool-1'') \<and>
   result (advancedDHCPIPPoolTask_Ensure (exampleClient (ok 200) (ok 201)) exampleSpec
     (exampleState (Some ''ec-1'') (Some ''profile-1'') None (Some ''switch-1'') None
        (Some ''pool-1'')) []) = Panic \<and>
   calls (advancedDHCPIPPoolTask_Ensure (exampleClient (ok 200) (ok 201))
     (exampleSpec\<lparr>WorkersNetwork := ''10.0.0.0/30''\<rparr>)
     (exampleState (Some ''ec-1'') (Some ''profile-1'') None (Some ''switch-1'') None
        (Some ''pool-1'')) []) = [] \<and>
   stateAfter (advancedDHCPIPPoolTask_Ensure (exampleClient (ok 200) (ok 201))
     (exampleSpec\<lparr>WorkersNetwork := ''10.0.0.0/30''\<rparr>)
     (exampleState (Some ''ec-1'') (Some ''profile-1'') None (Some ''switch-1'') None
        (Some ''pool-1'')) [])
     = exampleState (Some ''ec-1'') (Some ''profile-1'') None (Some ''switch-1'') None
        (Some ''pool-1'') \<and>
   result (advancedDHCPIPPoolTask_Ensure (exampleClient (ok 200) (ok 201))
     (exampleSpec\<lparr>WorkersNetwork := ''10.0.0.0/30''\<rparr>)
     (exampleState (Some ''ec-1'') (Some ''profile-1'') None (Some ''switch-1'') None
        (Some ''pool-1'')) [])
     = Return (Some (Wrapf (AddressError ''host number does not fit the subnet'')
                       ''start IP of pool'')) \<and>
   result (advancedDHCPIPPoolTask_Ensure (exampleClient (ok 200) (ok 201))
     (exampleSpec\<lparr>WorkersNetwork := ''10.0.0.0/3x''\<rparr>)
     (exampleState (Some ''ec-1'') (Some ''profile-1'') None (Some ''switch-1'') None
        (Some ''pool-1'')) [])
     = Return (Some (Wrapf (AddressError ''invalid CIDR'') ''gateway IP''))"
proof -
  let ?st = "exampleState (Some ''ec-1'') (Some ''profile-1'') None (Some ''switch-1'') None
               (Some ''pool-1'')"
  let ?a = "exampleClient (ok 200) (ok 201)"
  have h: "ServerID (AdvancedDHCP ?st) = None"
    by (simp add: exampleState_def)
  have nets:
    "WorkersNetwork (exampleSpec\<lparr>WorkersNetwork := ''10.0.0.0/30''\<rparr>) = ''10.0.0.0/30''"
    "WorkersNetwork (exampleSpec\<lparr>WorkersNetwork := ''10.0.0.0/3x''\<rparr>) = ''10.0.0.0/3x''"
    by simp_all
  show ?thesis
    using C3_pool_without_server [OF h, of ?a exampleSpec "[]"]
      C3_pool_without_server [OF h, of ?a "exampleSpec\<lparr>WorkersNetwork := ''10.0.0.0/30''\<rparr>" "[]"]
      C3_pool_without_server [OF h, of ?a "exampleSpec\<lparr>WorkersNetwork := ''10.0.0.0/3x''\<rparr>" "[]"]
      h
    by (simp add: exampleSpec_addresses nets cidrHost_small cidrHost_small_gateway cidrHost_bad)
qed

section \<open>Self-heal\<close>

lemma createOutcome_success:
  "createOutcome resp err = Return None \<longleftrightarrow>
     err = None \<and> map_option StatusCode resp = Some StatusCreated"
  by (auto simp: createOutcome_def split: option.splits)

lemma profile_selfheal:
  assumes "EdgeClusterID (AdvancedDHCP state) = Some ecid"
    and "ProfileID (AdvancedDHCP state) = Some pid"
    and "respNotFound (fst (snd (ReadDhcpProfile a pid)))"
    and "CreateDhcpProfile a (desiredProfile a spec ecid) = (created, resp, err)"
  shows "advancedDHCPProfileTask_Ensure a spec state log =
     (createOutcome resp err,
      state\<lparr>AdvancedDHCP := (AdvancedDHCP state)
        \<lparr>ProfileID := (if createOutcome resp err = Return None
                        then Some (prof_Id created) else None)\<rparr>\<rparr>,
      log @ [CallReadDhcpProfile pid, CallCreateDhcpProfile (desiredProfile a spec ecid)])"
proof -
  let ?state0 = "state\<lparr>AdvancedDHCP := (AdvancedDHCP state)\<lparr>ProfileID := None\<rparr>\<rparr>"
  obtain old r e where rd: "ReadDhcpProfile a pid = (old, r, e)"
    by (cases "ReadDhcpProfile a pid")
  with assms(3) have nf: "respNotFound r" by simp
  have pre: "EdgeClusterID (AdvancedDHCP ?state0) = Some ecid"
    "ProfileID (AdvancedDHCP ?state0) = None"
    using assms(1) by simp_all
  show ?thesis
    unfolding profile_notfound [OF assms(1,2) rd nf] profile_create [OF pre assms(4)]
    by simp
qed

lemma server_selfheal:
  assumes "cidrHostAndPrefix (WorkersNetwork spec) 2 = Inr dhcpServerIP"
    and "cidrHost (WorkersNetwork spec) 1 = Inr gatewayIP"
    and "ProfileID (AdvancedDHCP state) = Some profileId"
    and "ServerID (AdvancedDHCP state) = Some sid"
    and "respNotFound (fst (snd (ReadDhcpServer a sid)))"
    and "CreateDhcpServer a (desiredServer a spec profileId dhcpServerIP gatewayIP)
           = (created, resp, err)"
  shows "advancedDHCPServerTask_Ensure a spec state log =
     (createOutcome resp err,
      state\<lparr>AdvancedDHCP := (AdvancedDHCP state)
        \<lparr>ServerID := (if createOutcome resp err = Return None
                       then Some (srv_Id created) else None)\<rparr>\<rparr>,
      log @ [CallReadDhcpServer sid,
             CallCreateDhcpServer (desiredServer a spec profileId dhcpServerIP gatewayIP)])"
proof -
  let ?state0 = "state\<lparr>AdvancedDHCP := (AdvancedDHCP state)\<lparr>ServerID := None\<rparr>\<rparr>"
  obtain old r e where rd: "ReadDhcpServer a sid = (old, r, e)"
    by (cases "ReadDhcpServer a sid")
  with assms(5) have nf: "respNotFound r" by simp
  have pre: "ProfileID (AdvancedDHCP ?state0) = Some profileId"
    "ServerID (AdvancedDHCP ?state0) = None"
    using assms(3) by simp_all
  show ?thesis
    unfolding server_notfound [OF assms(1-4) rd nf] server_create [OF assms(1,2) pre assms(6)]
    by simp
qed

lemma port_selfheal:
  assumes "ServerID (AdvancedDHCP state) = Some serverId"
    and "LogicalSwitchID (AdvancedDHCP state) = Some switchId"
    and "PortID (AdvancedDHCP state) = Some pid"
    and "respNotFound (fst (snd (GetLogicalPort a pid)))"
    and "CreateLogicalPort a (desiredPort a spec serverId switchId) = (created, resp, err)"
  shows "advancedDHCPPortTask_Ensure a spec state log =
     (createOutcome resp err,
      state\<lparr>AdvancedDHCP := (AdvancedDHCP state)
        \<lparr>PortID := (if createOutcome resp err = Return None
                     then Some (port_Id created) else None)\<rparr>\<rparr>,
      log @ [CallGetLogicalPort pid, CallCreateLogicalPort (desiredPort a spec serverId switchId)])"
proof -
  let ?state0 = "state\<lparr>AdvancedDHCP := (AdvancedDHCP state)\<lparr>PortID := None\<rparr>\<rparr>"
  obtain old r e where rd: "GetLogicalPort a pid = (old, r, e)"
    by (cases "GetLogicalPort a pid")
  with assms(4) have nf: "respNotFound r" by simp
  have pre: "ServerID (AdvancedDHCP ?state0) = Some serverId"
    "LogicalSwitchID (AdvancedDHCP ?state0) = Some switchId"
    "PortID (AdvancedDHCP ?state0) = None"
    using assms(1,2) by simp_all
  show ?thesis
    unfolding port_notfound [OF assms(1-3) rd nf] port_create [OF pre assms(5)]
    by simp
qed

lemma pool_selfheal:
  assumes "cidrHost (WorkersNetwork spec) 1 = Inr gatewayIP"
    and "cidrHost (WorkersNetwork spec) 10 = Inr startIP"
    and "cidrHost (WorkersNetwork spec) (- 1) = Inr endIP"
    and "IPPoolID (AdvancedDHCP state) = Some poolId"
    and "ServerID (AdvancedDHCP state) = Some serverId"
    and "respNotFound (fst (snd (ReadDhcpIpPool a serverId poolId)))"
    and "CreateDhcpIpPool a serverId (desiredPool a spec gatewayIP startIP endIP)
           = (created, resp, err)"
  shows "advancedDHCPIPPoolTask_Ensure a spec state log =
     (createOutcome resp err,
      state\<lparr>AdvancedDHCP := (AdvancedDHCP state)
        \<lparr>IPPoolID := (if createOutcome resp err = Return None
                       then Some (pool_Id created) else None)\<rparr>\<rparr>,
      log @ [CallReadDhcpIpPool serverId poolId,
             CallCreateDhcpIpPool serverId (desiredPool a spec gatewayIP startIP endIP)])"
proof -
  let ?state0 = "state\<lparr>AdvancedDHCP := (AdvancedDHCP state)\<lparr>IPPoolID := None\<rparr>\<rparr>"
  obtain old r e where rd: "ReadDhcpIpPool a serverId poolId = (old, r, e)"
    by (cases "ReadDhcpIpPool a serverId poolId")
  with assms(6) have nf: "respNotFound r" by simp
  have pre: "IPPoolID (AdvancedDHCP ?state0) = None"
    "ServerID (AdvancedDHCP ?state0) = Some serverId"
    using assms(5) by simp_all
  show ?thesis
    unfolding pool_notfound [OF assms(1-5) rd nf] pool_create [OF assms(1-3) pre assms(7)]
    by simp
qed

text \<open>
  C4. For each owning task whose Reference is present and whose read answers HTTP 404:
  \<^verbatim>\<open>Ensure\<close> issues the read and then exactly one create call, nothing else (the
  recursive call runs with the Reference nil, so it cannot recurse again); it succeeds
  exactly when the create call answers a nil error and status 201; on success the state
  holds the identifier of the created object, and otherwise the Reference is left nil.
  The identifiers taken from earlier tasks are present and the addresses derive, so that
  the read is reached.
\<close>

theorem C4_selfheal_recreates_once:
  "(EdgeClusterID (AdvancedDHCP state) = Some ecid \<and>
    ProfileID (AdvancedDHCP state) = Some profileId \<and>
    respNotFound (fst (snd (ReadDhcpProfile a profileId))) \<longrightarrow>
    (case CreateDhcpProfile a (desiredProfile a spec ecid) of (created, resp, err) \<Rightarrow>
       calls (advancedDHCPProfileTask_Ensure a spec state log) =
         log @ [CallReadDhcpProfile profileId, CallCreateDhcpProfile (desiredProfile a spec ecid)] \<and>
       (result (advancedDHCPProfileTask_Ensure a spec state log) = Return None \<longleftrightarrow>
          err = None \<and> map_option StatusCode resp = Some StatusCreated) \<and>
       stateAfter (advancedDHCPProfileTask_Ensure a spec state log) =
         state\<lparr>AdvancedDHCP := (AdvancedDHCP state)
           \<lparr>ProfileID := (if result (advancedDHCPProfileTask_Ensure a spec state log) = Return None
                           then Some (prof_Id created) else None)\<rparr>\<rparr>)) \<and>
   (cidrHostAndPrefix (WorkersNetwork spec) 2 = Inr dhcpServerIP \<and>
    cidrHost (WorkersNetwork spec) 1 = Inr gatewayIP \<and>
    ProfileID (AdvancedDHCP state) = Some profileId \<and>
    ServerID (AdvancedDHCP state) = Some serverId \<and>
    respNotFound (fst (snd (ReadDhcpServer a serverId))) \<longrightarrow>
    (case CreateDhcpServer a (desiredServer a spec profileId dhcpServerIP gatewayIP) of
       (created, resp, err) \<Rightarrow>
       calls (advancedDHCPServerTask_Ensure a spec state log) =
         log @ [CallReadDhcpServer serverId,
                CallCreateDhcpServer (desiredServer a spec profileId dhcpServerIP gatewayIP)] \<and>
       (result (advancedDHCPServerTask_Ensure a spec state log) = Return None \<longleftrightarrow>
          err = None \<and> map_option StatusCode resp = Some StatusCreated) \<and>
       stateAfter (advancedDHCPServerTask_Ensure a spec state log) =
         state\<lparr>AdvancedDHCP := (AdvancedDHCP state)
           \<lparr>ServerID := (if result (advancedDHCPServerTask_Ensure a spec state log) = Return None
                          then Some (srv_Id created) else None)\<rparr>\<rparr>)) \<and>
   (ServerID (AdvancedDHCP state) = Some serverId \<and>
    LogicalSwitchID (AdvancedDHCP state) = Some switchId \<and>
    PortID (AdvancedDHCP state) = Some portId \<and>
    respNotFound (fst (snd (GetLogicalPort a portId))) \<longrightarrow>
    (case CreateLogicalPort a (desiredPort a spec serverId switchId) of (created, resp, err) \<Rightarrow>
       calls (advancedDHCPPortTask_Ensure a spec state log) =
         log @ [CallGetLogicalPort portId,
                CallCreateLogicalPort (desiredPort a spec serverId switchId)] \<and>
       (result (advancedDHCPPortTask_Ensure a spec state log) = Return None \<longleftrightarrow>
          err = None \<and> map_option StatusCode resp = Some StatusCreated) \<and>
       stateAfter (advancedDHCPPortTask_Ensure a spec state log) =
         state\<lparr>AdvancedDHCP := (AdvancedDHCP state)
           \<lparr>PortID := (if result (advancedDHCPPortTask_Ensure a spec state log) = Return None
                        then Some (port_Id created) else None)\<rparr>\<rparr>)) \<and>
   (cidrHost (WorkersNetwork spec) 1 = Inr gatewayIP \<and>
    cidrHost (WorkersNetwork spec) 10 = Inr startIP \<and>
    cidrHost (WorkersNetwork spec) (- 1) = Inr endIP \<and>
    IPPoolID (AdvancedDHCP state) = Some poolId \<and>
    ServerID (AdvancedDHCP state) = Some serverId \<and>
    respNotFound (fst (snd (ReadDhcpIpPool a serverId poolId))) \<longrightarrow>
    (case CreateDhcpIpPool a serverId (desiredPool a spec gatewayIP startIP endIP) of
       (created, resp, err) \<Rightarrow>
       calls (advancedDHCPIPPoolTask_Ensure a spec state log) =
         log @ [CallReadDhcpIpPool serverId poolId,
                CallCreateDhcpIpPool serverId (desiredPool a spec gatewayIP startIP endIP)] \<and>
       (result (advancedDHCPIPPoolTask_Ensure a spec state log) = Return None \<longleftrightarrow>
          err = None \<and> map_option StatusCode resp = Some StatusCreated) \<and>
       stateAfter (advancedDHCPIPPoolTask_Ensure a spec state log) =
         state\<lparr>AdvancedDHCP := (AdvancedDHCP state)
           \<lparr>IPPoolID := (if result (advancedDHCPIPPoolTask_Ensure a spec state log) = Return None
                          then Some (pool_Id created) else None)\<rparr>\<rparr>))"
  by (simp add: profile_selfheal server_selfheal port_selfheal pool_selfheal
        calls_def result_def stateAfter_def createOutcome_success split: prod.splits)

theorem C4_selfheal_recreates_once_witness:
  "(EdgeClusterID (AdvancedDHCP (exampleState (Some ''ec-1'') (Some ''profile-1'')
        (Some ''server-1'') (Some ''switch-1'') (Some ''port-1'') (Some ''pool-1''))) = Some ''ec-1'' \<and>
    ProfileID (AdvancedDHCP (exampleState (Some ''ec-1'') (Some ''profile-1'')
        (Some ''server-1'') (Some ''switch-1'') (Some ''port-1'') (Some ''pool-1''))) = Some ''profile-1'' \<and>
    ServerID (AdvancedDHCP (exampleState (Some ''ec-1'') (Some ''profile-1'')
        (Some ''server-1'') (Some ''switch-1'') (Some ''port-1'') (Some ''pool-1''))) = Some ''server-1'' \<and>
    LogicalSwitchID (AdvancedDHCP (exampleState (Some ''ec-1'') (Some ''profile-1'')
        (Some ''server-1'') (Some ''switch-1'') (Some ''port-1'') (Some ''pool-1''))) = Some ''switch-1'' \<and>
    PortID (AdvancedDHCP (exampleState (Some ''ec-1'') (Some ''profile-1'')
        (Some ''server-1'') (Some ''switch-1'') (Some ''port-1'') (Some ''pool-1''))) = Some ''port-1'' \<and>
    IPPoolID (AdvancedDHCP (exampleState (Some ''ec-1'') (Some ''profile-1'')
        (Some ''server-1'') (Some ''switch-1'') (Some ''port-1'') (Some ''pool-1''))) = Some ''pool-1'' \<and>
    cidrHostAndPrefix (WorkersNetwork exampleSpec) 2 = Inr ''10.0.0.2/24'' \<and>
    cidrHost (WorkersNetwork exampleSpec) 1 = Inr ''10.0.0.1'' \<and>
    cidrHost (WorkersNetwork exampleSpec) 10 = Inr ''10.0.0.10'' \<and>
    cidrHost (WorkersNetwork exampleSpec) (- 1) = Inr ''10.0.0.254'' \<and>
    respNotFound (fst (snd (ReadDhcpProfile (exampleClient (failing 404 ''gone'') (ok 201)) ''profile-1''))) \<and>
    respNotFound (fst (snd (ReadDhcpServer (exampleClient (failing 404 ''gone'') (ok 201)) ''server-1''))) \<and>
    respNotFound (fst (snd (GetLogicalPort (exampleClient (failing 404 ''gone'') (ok 201)) ''port-1''))) \<and>
    respNotFound (fst (snd (ReadDhcpIpPool (exampleClient (failing 404 ''gone'') (ok 201))
      ''server-1'' ''pool-1'')))) \<and>
   (calls (advancedDHCPProfileTask_Ensure (exampleClient (failing 404 ''gone'') (ok 201)) exampleSpec
      (exampleState (Some ''ec-1'') (Some ''profile-1'') (Some ''server-1'') (Some ''switch-1'')
         (Some ''port-1'') (Some ''pool-1'')) [])
      = [CallReadDhcpProfile ''profile-1'', CallCreateDhcpProfile exampleProfile] \<and>
    result (advancedDHCPProfileTask_Ensure (exampleClient (failing 404 ''gone'') (ok 201)) exampleSpec
      (exampleState (Some ''ec-1'') (Some ''profile-1'') (Some ''server-1'') (Some ''switch-1'')
         (Some ''port-1'') (Some ''pool-1'')) []) = Return None \<and>
    stateAfter (advancedDHCPProfileTask_Ensure (exampleClient (failing 404 ''gone'') (ok 201)) exampleSpec
      (exampleState (Some ''ec-1'') (Some ''profile-1'') (Some ''server-1'') (Some ''switch-1'')
         (Some ''port-1'') (Some ''pool-1'')) [])
      = exampleState (Some ''ec-1'') (Some ''profile-new'') (Some ''server-1'') (Some ''switch-1'')
         (Some ''port-1'') (Some ''pool-1'')) \<and>
   (calls (advancedDHCPServerTask_Ensure (exampleClient (failing 404 ''gone'') (ok 201)) exampleSpec
      (exampleState (Some ''ec-1'') (Some ''profile-1'') (Some ''server-1'') (Some ''switch-1'')
         (Some ''port-1'') (Some ''pool-1'')) [])
      = [CallReadDhcpServer ''server-1'', CallCreateDhcpServer exampleServer] \<and>
    result (advancedDHCPServerTask_Ensure (exampleClient (failing 404 ''gone'') (ok 201)) exampleSpec
      (exampleState (Some ''ec-1'') (Some ''profile-1'') (Some ''server-1'') (Some ''switch-1'')
         (Some ''port-1'') (Some ''pool-1'')) []) = Return None \<and>
    stateAfter (advancedDHCPServerTask_Ensure (exampleClient (failing 404 ''gone'') (ok 201)) exampleSpec
      (exampleState (Some ''ec-1'') (Some ''profile-1'') (Some ''server-1'') (Some ''switch-1'')
         (Some ''port-1'') (Some ''pool-1'')) [])
      = exampleState (Some ''ec-1'') (Some ''profile-1'') (Some ''server-new'') (Some ''switch-1'')
         (Some ''port-1'') (Some ''pool-1'')) \<and>
   (calls (advancedDHCPPortTask_Ensure (exampleClient (failing 404 ''gone'') (ok 201)) exampleSpec
      (exampleState (Some ''ec-1'') (Some ''profile-1'') (Some ''server-1'') (Some ''switch-1'')
         (Some ''port-1'') (Some ''pool-1'')) [])
      = [CallGetLogicalPort ''port-1'', CallCreateLogicalPort examplePort] \<and>
    result (advancedDHCPPortTask_Ensure (exampleClient (failing 404 ''gone'') (ok 201)) exampleSpec
      (exampleState (Some ''ec-1'') (Some ''profile-1'') (Some ''server-1'') (Some ''switch-1'')
         (Some ''port-1'') (Some ''pool-1'')) []) = Return None \<and>
    stateAfter (advancedDHCPPortTask_Ensure (exampleClient (failing 404 ''gone'') (ok 201)) exampleSpec
      (exampleState (Some ''ec-1'') (Some ''profile-1'') (Some ''server-1'') (Some ''switch-1'')
         (Some ''port-1'') (Some ''pool-1'')) [])
      = exampleState (Some ''ec-1'') (Some ''profile-1'') (Some ''server-1'') (Some ''switch-1'')
         (Some ''port-new'') (Some ''pool-1'')) \<and>
   (calls (advancedDHCPIPPoolTask_Ensure (exampleClient (failing 404 ''gone'') (ok 201)) exampleSpec
      (exampleState (Some ''ec-1'') (Some ''profile-1'') (Some ''server-1'') (Some ''switch-1'')
         (Some ''port-1'') (Some ''pool-1'')) [])
      = [CallReadDhcpIpPool ''server-1'' ''pool-1'', CallCreateDhcpIpPool ''server-1'' examplePool] \<and>
    result (advancedDHCPIPPoolTask_Ensure (exampleClient (failing 404 ''gone'') (ok 201)) exampleSpec
      (exampleState (Some ''ec-1'') (Some ''profile-1'') (Some ''server-1'') (Some ''switch-1'')
         (Some ''port-1'') (Some ''pool-1'')) []) = Return None \<and>
    stateAfter (advancedDHCPIPPoolTask_Ensure (exampleClient (failing 404 ''gone'') (ok 201)) exampleSpec
      (exampleState (Some ''ec-1'') (Some ''profile-1'') (Some ''server-1'') (Some ''switch-1'')
         (Some ''port-1'') (Some ''pool-1'')) [])
      = exampleState (Some ''ec-1'') (Some ''profile-1'') (Some ''server-1'') (Some ''switch-1'')
         (Some ''port-1'') (Some ''pool-new''))"
proof -
  let ?full = "exampleState (Some ''ec-1'') (Some ''profile-1'') (Some ''server-1'')
                 (Some ''switch-1'') (Some ''port-1'') (Some ''pool-1'')"
  let ?a = "exampleClient (failing 404 ''gone'') (ok 201)"
  have ids:
    "EdgeClusterID (AdvancedDHCP ?full) = Some ''ec-1''"
    "ProfileID (AdvancedDHCP ?full) = Some ''profile-1''"
    "ServerID (AdvancedDHCP ?full) = Some ''server-1''"
    "LogicalSwitchID (AdvancedDHCP ?full) = Some ''switch-1''"
    "PortID (AdvancedDHCP ?full) = Some ''port-1''"
    "IPPoolID (AdvancedDHCP ?full) = Some ''pool-1''"
    by (simp_all add: exampleState_def)
  have gone:
    "respNotFound (fst (snd (ReadDhcpProfile ?a ''profile-1'')))"
    "respNotFound (fst (snd (ReadDhcpServer ?a ''server-1'')))"
    "respNotFound (fst (snd (GetLogicalPort ?a ''port-1'')))"
    "respNotFound (fst (snd (ReadDhcpIpPool ?a ''server-1'' ''pool-1'')))"
    by (simp_all add: exampleClient_def failing_def respNotFound_def StatusNotFound_def)
  have created:
    "CreateDhcpProfile ?a exampleProfile
       = (exampleProfile\<lparr>prof_Id := ''profile-new''\<rparr>, Some \<lparr>StatusCode = 201\<rparr>, None)"
    "CreateDhcpServer ?a exampleServer
       = (exampleServer\<lparr>srv_Id := ''server-new''\<rparr>, Some \<lparr>StatusCode = 201\<rparr>, None)"
    "CreateLogicalPort ?a examplePort
       = (examplePort\<lparr>port_Id := ''port-new''\<rparr>, Some \<lparr>StatusCode = 201\<rparr>, None)"
    "CreateDhcpIpPool ?a ''server-1'' examplePool
       = (examplePool\<lparr>pool_Id := ''pool-new''\<rparr>, Some \<lparr>StatusCode = 201\<rparr>, None)"
    by (simp_all add: exampleClient_def ok_def)
  have upd:
    "?full\<lparr>AdvancedDHCP := (AdvancedDHCP ?full)\<lparr>ProfileID := Some ''profile-new''\<rparr>\<rparr>
       = exampleState (Some ''ec-1'') (Some ''profile-new'') (Some ''server-1'')
          (Some ''switch-1'') (Some ''port-1'') (Some ''pool-1'')"
    "?full\<lparr>AdvancedDHCP := (AdvancedDHCP ?full)\<lparr>ServerID := Some ''server-new''\<rparr>\<rparr>
       = exampleState (Some ''ec-1'') (Some ''profile-1'') (Some ''server-new'')
          (Some ''switch-1'') (Some ''port-1'') (Some ''pool-1'')"
    "?full\<lparr>AdvancedDHCP := (AdvancedDHCP ?full)\<lparr>PortID := Some ''port-new''\<rparr>\<rparr>
       = exampleState (Some ''ec-1'') (Some ''profile-1'') (Some ''server-1'')
          (Some ''switch-1'') (Some ''port-new'') (Some ''pool-1'')"
    "?full\<lparr>AdvancedDHCP := (AdvancedDHCP ?full)\<lparr>IPPoolID := Some ''pool-new''\<rparr>\<rparr>
       = exampleState (Some ''ec-1'') (Some ''profile-1'') (Some ''server-1'')
          (Some ''switch-1'') (Some ''port-1'') (Some ''pool-new'')"
    by (simp_all add: exampleState_def)
  have ids_new:
    "prof_Id (exampleProfile\<lparr>prof_Id := ''profile-new''\<rparr>) = ''profile-new''"
    "srv_Id (exampleServer\<lparr>srv_Id := ''server-new''\<rparr>) = ''server-new''"
    "port_Id (examplePort\<lparr>port_Id := ''port-new''\<rparr>) = ''port-new''"
    "pool_Id (examplePool\<lparr>pool_Id := ''pool-new''\<rparr>) = ''pool-new''"
    by simp_all
  show ?thesis
    using C4_selfheal_recreates_once
            [where state = "?full" and a = "?a" and spec = exampleSpec and log = "[]"
               and ecid = "''ec-1''" and profileId = "''profile-1''"
               and serverId = "''server-1''" and switchId = "''switch-1''"
               and portId = "''port-1''" and poolId = "''pool-1''"
               and dhcpServerIP = "''10.0.0.2/24''" and gatewayIP = "''10.0.0.1''"
               and startIP = "''10.0.0.10''" and endIP = "''10.0.0.254''"]
    by (simp only: ids gone exampleSpec_addresses desired_examples created upd ids_new
          StatusCreated_def Response.simps option.map prod.case simp_thms append_Nil if_True)
qed

section \<open>Read failures\<close>

lemma not_isl_Inr: "\<not> isl x \<Longrightarrow> \<exists>y. x = Inr y"
  by (cases x) simp_all

text \<open>
  C9. For each owning task whose Reference is present: when the read answers with an
  error and the response is not a 404, \<^verbatim>\<open>Ensure\<close> returns that error wrapped as a reading
  error, leaves the state exactly as it was and issues no call after the read. The
  identifiers taken from earlier tasks are present and the addresses derive, so that the
  read is reached.
\<close>

theorem C9_read_failure_leaves_state:
  "(EdgeClusterID (AdvancedDHCP state) = Some ecid \<and>
    ProfileID (AdvancedDHCP state) = Some profileId \<and>
    \<not> respNotFound (fst (snd (ReadDhcpProfile a profileId))) \<and>
    snd (snd (ReadDhcpProfile a profileId)) = Some e1 \<longrightarrow>
      advancedDHCPProfileTask_Ensure a spec state log =
        (Return (Some (readingErr e1)), state, log @ [CallReadDhcpProfile profileId])) \<and>
   (\<not> isl (cidrHostAndPrefix (WorkersNetwork spec) 2) \<and>
    \<not> isl (cidrHost (WorkersNetwork spec) 1) \<and>
    ProfileID (AdvancedDHCP state) = Some profileId \<and>
    ServerID (AdvancedDHCP state) = Some serverId \<and>
    \<not> respNotFound (fst (snd (ReadDhcpServer a serverId))) \<and>
    snd (snd (ReadDhcpServer a serverId)) = Some e2 \<longrightarrow>
      advancedDHCPServerTask_Ensure a spec state log =
        (Return (Some (readingErr e2)), state, log @ [CallReadDhcpServer serverId])) \<and>
   (ServerID (AdvancedDHCP state) = Some serverId \<and>
    LogicalSwitchID (AdvancedDHCP state) = Some switchId \<and>
    PortID (AdvancedDHCP state) = Some portId \<and>
    \<not> respNotFound (fst (snd (GetLogicalPort a portId))) \<and>
    snd (snd (GetLogicalPort a portId)) = Some e3 \<longrightarrow>
      advancedDHCPPortTask_Ensure a spec state log =
        (Return (Some (readingErr e3)), state, log @ [CallGetLogicalPort portId])) \<and>
   (\<not> isl (cidrHost (WorkersNetwork spec) 1) \<and>
    \<not> isl (cidrHost (WorkersNetwork spec) 10) \<and>
    \<not> isl (cidrHost (WorkersNetwork spec) (- 1)) \<and>
    IPPoolID (AdvancedDHCP state) = Some poolId \<and>
    ServerID (AdvancedDHCP state) = Some serverId \<and>
    \<not> respNotFound (fst (snd (ReadDhcpIpPool a serverId poolId))) \<and>
    snd (snd (ReadDhcpIpPool a serverId poolId)) = Some e4 \<longrightarrow>
      advancedDHCPIPPoolTask_Ensure a spec state log =
        (Return (Some (readingErr e4)), state, log @ [CallReadDhcpIpPool serverId poolId]))"
proof (intro conjI impI; elim conjE)
  assume h: "EdgeClusterID (AdvancedDHCP state) = Some ecid"
    "ProfileID (AdvancedDHCP state) = Some profileId"
    "\<not> respNotFound (fst (snd (ReadDhcpProfile a profileId)))"
    "snd (snd (ReadDhcpProfile a profileId)) = Some e1"
  obtain old r where "ReadDhcpProfile a profileId = (old, r, Some e1)"
    using h(4) by (cases "ReadDhcpProfile a profileId") auto
  with h show "advancedDHCPProfileTask_Ensure a spec state log =
        (Return (Some (readingErr e1)), state, log @ [CallReadDhcpProfile profileId])"
    by (simp add: profile_readerr)
next
  assume h: "\<not> isl (cidrHostAndPrefix (WorkersNetwork spec) 2)"
    "\<not> isl (cidrHost (WorkersNetwork spec) 1)"
    "ProfileID (AdvancedDHCP state) = Some profileId"
    "ServerID (AdvancedDHCP state) = Some serverId"
    "\<not> respNotFound (fst (snd (ReadDhcpServer a serverId)))"
    "snd (snd (ReadDhcpServer a serverId)) = Some e2"
  obtain ip gw where c: "cidrHostAndPrefix (WorkersNetwork spec) 2 = Inr ip"
    "cidrHost (WorkersNetwork spec) 1 = Inr gw"
    using h(1,2) by (blast dest: not_isl_Inr)
  obtain old r where "ReadDhcpServer a serverId = (old, r, Some e2)"
    using h(6) by (cases "ReadDhcpServer a serverId") auto
  with h c show "advancedDHCPServerTask_Ensure a spec state log =
        (Return (Some (readingErr e2)), state, log @ [CallReadDhcpServer serverId])"
    by (simp add: server_readerr)
next
  assume h: "ServerID (AdvancedDHCP state) = Some serverId"
    "LogicalSwitchID (AdvancedDHCP state) = Some switchId"
    "PortID (AdvancedDHCP state) = Some portId"
    "\<not> respNotFound (fst (snd (GetLogicalPort a portId)))"
    "snd (snd (GetLogicalPort a portId)) = Some e3"
  obtain old r where "GetLogicalPort a portId = (old, r, Some e3)"
    using h(5) by (cases "GetLogicalPort a portId") auto
  with h show "advancedDHCPPortTask_Ensure a spec state log =
        (Return (Some (readingErr e3)), state, log @ [CallGetLogicalPort portId])"
    by (simp add: port_readerr)
next
  assume h: "\<not> isl (cidrHost (WorkersNetwork spec) 1)"
    "\<not> isl (cidrHost (WorkersNetwork spec) 10)"
    "\<not> isl (cidrHost (WorkersNetwork spec) (- 1))"
    "IPPoolID (AdvancedDHCP state) = Some poolId"
    "ServerID (AdvancedDHCP state) = Some serverId"
    "\<not> respNotFound (fst (snd (ReadDhcpIpPool a serverId poolId)))"
    "snd (snd (ReadDhcpIpPool a serverId poolId)) = Some e4"
  obtain gw st en where c: "cidrHost (WorkersNetwork spec) 1 = Inr gw"
    "cidrHost (WorkersNetwork spec) 10 = Inr st" "cidrHost (WorkersNetwork spec) (- 1) = Inr en"
    using h(1-3) by (blast dest: not_isl_Inr)
  obtain old r where "ReadDhcpIpPool a serverId poolId = (old, r, Some e4)"
    using h(7) by (cases "ReadDhcpIpPool a serverId poolId") auto
  with h c show "advancedDHCPIPPoolTask_Ensure a spec state log =
        (Return (Some (readingErr e4)), state, log @ [CallReadDhcpIpPool serverId poolId])"
    by (simp add: pool_readerr)
qed

theorem C9_read_failure_leaves_state_witness:
  "(EdgeClusterID (AdvancedDHCP (exampleState (Some ''ec-1'') (Some ''profile-1'')
        (Some ''server-1'') (Some ''switch-1'') (Some ''port-1'') (Some ''pool-1''))) = Some ''ec-1'' \<and>
    ProfileID (AdvancedDHCP (exampleState (Some ''ec-1'') (Some ''profile-1'')
        (Some ''server-1'') (Some ''switch-1'') (Some ''port-1'') (Some ''pool-1''))) = Some ''profile-1'' \<and>
    ServerID (AdvancedDHCP (exampleState (Some ''ec-1'') (Some ''profile-1'')
        (Some ''server-1'') (Some ''switch-1'') (Some ''port-1'') (Some ''pool-1''))) = Some ''server-1'' \<and>
    LogicalSwitchID (AdvancedDHCP (exampleState (Some ''ec-1'') (Some ''profile-1'')
        (Some ''server-1'') (Some ''switch-1'') (Some ''port-1'') (Some ''pool-1''))) = Some ''switch-1'' \<and>
    PortID (AdvancedDHCP (exampleState (Some ''ec-1'') (Some ''profile-1'')
        (Some ''server-1'') (Some ''switch-1'') (Some ''port-1'') (Some ''pool-1''))) = Some ''port-1'' \<and>
    IPPoolID (AdvancedDHCP (exampleState (Some ''ec-1'') (Some ''profile-1'')
        (Some ''server-1'') (Some ''switch-1'') (Some ''port-1'') (Some ''pool-1''))) = Some ''pool-1'' \<and>
    \<not> isl (cidrHostAndPrefix (WorkersNetwork exampleSpec) 2) \<and>
    \<not> isl (cidrHost (WorkersNetwork exampleSpec) 1) \<and>
    \<not> isl (cidrHost (WorkersNetwork exampleSpec) 10) \<and>
    \<not> isl (cidrHost (WorkersNetwork exampleSpec) (- 1)) \<and>
    \<not> respNotFound (fst (snd (ReadDhcpProfile (exampleClient (failing 503 ''unavailable'') (ok 200)) ''profile-1''))) \<and>
    snd (snd (ReadDhcpProfile (exampleClient (failing 503 ''unavailable'') (ok 200)) ''profile-1''))
      = Some (ClientError ''unavailable'') \<and>
    \<not> respNotFound (fst (snd (ReadDhcpServer (exampleClient (failing 503 ''unavailable'') (ok 200)) ''server-1''))) \<and>
    snd (snd (ReadDhcpServer (exampleClient (failing 503 ''unavailable'') (ok 200)) ''server-1''))
      = Some (ClientError ''unavailable'') \<and>
    \<not> respNotFound (fst (snd (GetLogicalPort (exampleClient (failing 503 ''unavailable'') (ok 200)) ''port-1''))) \<and>
    snd (snd (GetLogicalPort (exampleClient (failing 503 ''unavailable'') (ok 200)) ''port-1''))
      = Some (ClientError ''unavailable'') \<and>
    \<not> respNotFound (fst (snd (ReadDhcpIpPool (exampleClient (failing 503 ''unavailable'') (ok 200))
      ''server-1'' ''pool-1''))) \<and>
    snd (snd (ReadDhcpIpPool (exampleClient (failing 503 ''unavailable'') (ok 200))
      ''server-1'' ''pool-1'')) = Some (ClientError ''unavailable'')) \<and>
   advancedDHCPProfileTask_Ensure (exampleClient (failing 503 ''unavailable'') (ok 200)) exampleSpec
     (exampleState (Some ''ec-1'') (Some ''profile-1'') (Some ''server-1'') (Some ''switch-1'')
        (Some ''port-1'') (Some ''pool-1'')) []
     = (Return (Some (readingErr (ClientError ''unavailable''))),
        exampleState (Some ''ec-1'') (Some ''profile-1'') (Some ''server-1'') (Some ''switch-1'')
          (Some ''port-1'') (Some ''pool-1''),
        [CallReadDhcpProfile ''profile-1'']) \<and>
   advancedDHCPServerTask_Ensure (exampleClient (failing 503 ''unavailable'') (ok 200)) exampleSpec
     (exampleState (Some ''ec-1'') (Some ''profile-1'') (Some ''server-1'') (Some ''switch-1'')
        (Some ''port-1'') (Some ''pool-1'')) []
     = (Return (Some (readingErr (ClientError ''unavailable''))),
        exampleState (Some ''ec-1'') (Some ''profile-1'') (Some ''server-1'') (Some ''switch-1'')
          (Some ''port-1'') (Some ''pool-1''),
        [CallReadDhcpServer ''server-1'']) \<and>
   advancedDHCPPortTask_Ensure (exampleClient (failing 503 ''unavailable'') (ok 200)) exampleSpec
     (exampleState (Some ''ec-1'') (Some ''profile-1'') (Some ''server-1'') (Some ''switch-1'')
        (Some ''port-1'') (Some ''pool-1'')) []
     = (Return (Some (readingErr (ClientError ''unavailable''))),
        exampleState (Some ''ec-1'') (Some ''profile-1'') (Some ''server-1'') (Some ''switch-1'')
          (Some ''port-1'') (Some ''pool-1''),
        [CallGetLogicalPort ''port-1'']) \<and>
   advancedDHCPIPPoolTask_Ensure (exampleClient (failing 503 ''unavailable'') (ok 200)) exampleSpec
     (exampleState (Some ''ec-1'') (Some ''profile-1'') (Some ''server-1'') (Some ''switch-1'')
        (Some ''port-1'') (Some ''pool-1'')) []
     = (Return (Some (readingErr (ClientError ''unavailable''))),
        exampleState (Some ''ec-1'') (Some ''profile-1'') (Some ''server-1'') (Some ''switch-1'')
          (Some ''port-1'') (Some ''pool-1''),
        [CallReadDhcpIpPool ''server-1'' ''pool-1''])"
proof -
  let ?full = "exampleState (Some ''ec-1'') (Some ''profile-1'') (Some ''server-1'')
                 (Some ''switch-1'') (Some ''port-1'') (Some ''pool-1'')"
  let ?a = "exampleClient (failing 503 ''unavailable'') (ok 200)"
  have ids:
    "EdgeClusterID (AdvancedDHCP ?full) = Some ''ec-1''"
    "ProfileID (AdvancedDHCP ?full) = Some ''profile-1''"
    "ServerID (AdvancedDHCP ?full) = Some ''server-1''"
    "LogicalSwitchID (AdvancedDHCP ?full) = Some ''switch-1''"
    "PortID (AdvancedDHCP ?full) = Some ''port-1''"
    "IPPoolID (AdvancedDHCP ?full) = Some ''pool-1''"
    by (simp_all add: exampleState_def)
  have reads:
    "\<not> respNotFound (fst (snd (ReadDhcpProfile ?a ''profile-1'')))"
    "snd (snd (ReadDhcpProfile ?a ''profile-1'')) = Some (ClientError ''unavailable'')"
    "\<not> respNotFound (fst (snd (ReadDhcpServer ?a ''server-1'')))"
    "snd (snd (ReadDhcpServer ?a ''server-1'')) = Some (ClientError ''unavailable'')"
    "\<not> respNotFound (fst (snd (GetLogicalPort ?a ''port-1'')))"
    "snd (snd (GetLogicalPort ?a ''port-1'')) = Some (ClientError ''unavailable'')"
    "\<not> respNotFound (fst (snd (ReadDhcpIpPool ?a ''server-1'' ''pool-1'')))"
    "snd (snd (ReadDhcpIpPool ?a ''server-1'' ''pool-1'')) = Some (ClientError ''unavailable'')"
    by (simp_all add: exampleClient_def failing_def respNotFound_def StatusNotFound_def)
  show ?thesis
    using C9_read_failure_leaves_state
            [where state = "?full" and a = "?a" and spec = exampleSpec and log = "[]"
               and ecid = "''ec-1''" and profileId = "''profile-1''"
               and serverId = "''server-1''" and switchId = "''switch-1''"
               and portId = "''port-1''" and poolId = "''pool-1''"
               and ?e1.0 = "ClientError ''unavailable''" and ?e2.0 = "ClientError ''unavailable''"
               and ?e3.0 = "ClientError ''unavailable''" and ?e4.0 = "ClientError ''unavailable''"]
    by (simp only: ids reads exampleSpec_addresses sum.disc simp_thms append_Nil)
qed

section \<open>Address derivation in the tasks\<close>

text \<open>
  C5. For the worker subnet \<^verbatim>\<open>10.0.0.0/24\<close> the gateway is \<^verbatim>\<open>10.0.0.1\<close>, the DHCP server
  address \<^verbatim>\<open>10.0.0.2/24\<close>, the pool start \<^verbatim>\<open>10.0.0.10\<close> and the pool end \<^verbatim>\<open>10.0.0.254\<close>. The
  addresses are functions of the subnet alone: whatever the state holds, the server task
  sends the server with that address and gateway, and the pool task the pool with that
  gateway and range.
\<close>

theorem C5_addresses_of_worker_subnet:
  assumes "WorkersNetwork spec = ''10.0.0.0/24''"
  shows "cidrHost (WorkersNetwork spec) 1 = Inr ''10.0.0.1'' \<and>
         cidrHostAndPrefix (WorkersNetwork spec) 2 = Inr ''10.0.0.2/24'' \<and>
         cidrHost (WorkersNetwork spec) 10 = Inr ''10.0.0.10'' \<and>
         cidrHost (WorkersNetwork spec) (- 1) = Inr ''10.0.0.254'' \<and>
         (ProfileID (AdvancedDHCP state) = Some profileId \<and>
          ServerID (AdvancedDHCP state) = None \<longrightarrow>
            calls (advancedDHCPServerTask_Ensure a spec state log) =
              log @ [CallCreateDhcpServer
                       (desiredServer a spec profileId ''10.0.0.2/24'' ''10.0.0.1'')]) \<and>
         (ServerID (AdvancedDHCP state') = Some serverId \<and>
          IPPoolID (AdvancedDHCP state') = None \<longrightarrow>
            calls (advancedDHCPIPPoolTask_Ensure a spec state' log) =
              log @ [CallCreateDhcpIpPool serverId
                       (desiredPool a spec ''10.0.0.1'' ''10.0.0.10'' ''10.0.0.254'')])"
proof -
  have c: "cidrHost (WorkersNetwork spec) 1 = Inr ''10.0.0.1''"
    "cidrHostAndPrefix (WorkersNetwork spec) 2 = Inr ''10.0.0.2/24''"
    "cidrHost (WorkersNetwork spec) 10 = Inr ''10.0.0.10''"
    "cidrHost (WorkersNetwork spec) (- 1) = Inr ''10.0.0.254''"
    unfolding assms
    by (rule cidrHost_gateway cidrHostAndPrefix_server cidrHost_start cidrHost_end)+
  have srv: "calls (advancedDHCPServerTask_Ensure a spec state log) =
              log @ [CallCreateDhcpServer
                       (desiredServer a spec profileId ''10.0.0.2/24'' ''10.0.0.1'')]"
    if "ProfileID (AdvancedDHCP state) = Some profileId" "ServerID (AdvancedDHCP state) = None"
  proof -
    obtain u r e where
      "CreateDhcpServer a (desiredServer a spec profileId ''10.0.0.2/24'' ''10.0.0.1'') = (u, r, e)"
      by (cases "CreateDhcpServer a (desiredServer a spec profileId ''10.0.0.2/24'' ''10.0.0.1'')")
    from server_create [OF c(2,1) that this] show ?thesis
      by (simp add: calls_def)
  qed
  have pool: "calls (advancedDHCPIPPoolTask_Ensure a spec state' log) =
              log @ [CallCreateDhcpIpPool serverId
                       (desiredPool a spec ''10.0.0.1'' ''10.0.0.10'' ''10.0.0.254'')]"
    if "ServerID (AdvancedDHCP state') = Some serverId" "IPPoolID (AdvancedDHCP state') = None"
  proof -
    obtain u r e where
      "CreateDhcpIpPool a serverId (desiredPool a spec ''10.0.0.1'' ''10.0.0.10'' ''10.0.0.254'')
         = (u, r, e)"
      by (cases "CreateDhcpIpPool a serverId
                   (desiredPool a spec ''10.0.0.1'' ''10.0.0.10'' ''10.0.0.254'')")
    from pool_create [OF c(1,3,4) that(2,1) this] show ?thesis
      by (simp add: calls_def)
  qed
  show ?thesis using c srv pool by blast
qed

theorem C5_addresses_of_worker_subnet_witness:
  "WorkersNetwork exampleSpec = ''10.0.0.0/24'' \<and>
   ProfileID (AdvancedDHCP (exampleState (Some ''ec-1'') (Some ''profile-1'') None None None None))
     = Some ''profile-1'' \<and>
   ServerID (AdvancedDHCP (exampleState (Some ''ec-1'') (Some ''profile-1'') None None None None))
     = None \<and>
   ServerID (AdvancedDHCP (exampleState (Some ''ec-1'') (Some ''profile-1'') (Some ''server-1'')
     (Some ''switch-1'') (Some ''port-1'') None)) = Some ''server-1'' \<and>
   IPPoolID (AdvancedDHCP (exampleState (Some ''ec-1'') (Some ''profile-1'') (Some ''server-1'')
     (Some ''switch-1'') (Some ''port-1'') None)) = None \<and>
   cidrHost (WorkersNetwork exampleSpec) 1 = Inr ''10.0.0.1'' \<and>
   cidrHostAndPrefix (WorkersNetwork exampleSpec) 2 = Inr ''10.0.0.2/24'' \<and>
   cidrHost (WorkersNetwork exampleSpec) 10 = Inr ''10.0.0.10'' \<and>
   cidrHost (WorkersNetwork exampleSpec) (- 1) = Inr ''10.0.0.254'' \<and>
   calls (advancedDHCPServerTask_Ensure (exampleClient (ok 200) (ok 201)) exampleSpec
     (exampleState (Some ''ec-1'') (Some ''profile-1'') None None None None) [])
     = [CallCreateDhcpServer exampleServer] \<and>
   calls (advancedDHCPIPPoolTask_Ensure (exampleClient (ok 200) (ok 201)) exampleSpec
     (exampleState (Some ''ec-1'') (Some ''profile-1'') (Some ''server-1'')
        (Some ''switch-1'') (Some ''port-1'') None) [])
     = [CallCreateDhcpIpPool ''server-1'' examplePool]"
proof -
  have w: "WorkersNetwork exampleSpec = ''10.0.0.0/24''"
    by (simp add: exampleSpec_def)
  have ids:
    "ProfileID (AdvancedDHCP (exampleState (Some ''ec-1'') (Some ''profile-1'') None None None None))
       = Some ''profile-1''"
    "ServerID (AdvancedDHCP (exampleState (Some ''ec-1'') (Some ''profile-1'') None None None None))
       = None"
    "ServerID (AdvancedDHCP (exampleState (Some ''ec-1'') (Some ''profile-1'') (Some ''server-1'')
       (Some ''switch-1'') (Some ''port-1'') None)) = Some ''server-1''"
    "IPPoolID (AdvancedDHCP (exampleState (Some ''ec-1'') (Some ''profile-1'') (Some ''server-1'')
       (Some ''switch-1'') (Some ''port-1'') None)) = None"
    by (simp_all add: exampleState_def)
  show ?thesis
    using C5_addresses_of_worker_subnet
            [OF w, where state = "exampleState (Some ''ec-1'') (Some ''profile-1'') None None None None"
               and state' = "exampleState (Some ''ec-1'') (Some ''profile-1'') (Some ''server-1'')
                               (Some ''switch-1'') (Some ''port-1'') None"
               and a = "exampleClient (ok 200) (ok 201)" and log = "[]"
               and profileId = "''profile-1''" and serverId = "''server-1''"]
          w
    by (simp only: ids desired_examples simp_thms append_Nil)
qed

section \<open>Tags and DNS servers in the update decision\<close>

text \<open>
  C6, as claimed: \<^verbatim>\<open>equalCommonTags(a, b)\<close> is true exactly when \<open>a\<close> and \<open>b\<close> are equal as
  multisets. It does not hold: the function tests the lengths and that every tag of \<open>a\<close>
  occurs in \<open>b\<close>, so a tag repeated in \<open>a\<close> stands in for a tag of \<open>b\<close> that \<open>a\<close> lacks.
\<close>

theorem C6_equalCommonTags_not_multiset_equality:
  "equalCommonTags
     [\<lparr>Scope = ''owner'', Tag = ''gardener''\<rparr>, \<lparr>Scope = ''owner'', Tag = ''gardener''\<rparr>]
     [\<lparr>Scope = ''owner'', Tag = ''gardener''\<rparr>, \<lparr>Scope = ''cluster'', Tag = ''shoot''\<rparr>] \<and>
   mset [\<lparr>Scope = ''owner'', Tag = ''gardener''\<rparr>, \<lparr>Scope = ''owner'', Tag = ''gardener''\<rparr>]
     \<noteq> mset [\<lparr>Scope = ''owner'', Tag = ''gardener''\<rparr>, \<lparr>Scope = ''cluster'', Tag = ''shoot''\<rparr>]"
  by (simp add: equalCommonTags_def)

text \<open>
  C6, amended: \<^verbatim>\<open>equalCommonTags(a, b)\<close> is true exactly when \<open>a\<close> and \<open>b\<close> have the same
  length and every tag of \<open>a\<close> occurs in \<open>b\<close>. It is therefore true whenever \<open>a\<close> and \<open>b\<close>
  are equal as multisets, so reordering tags never triggers an update, and when \<open>a\<close> has
  no repeated tag it is true exactly when they are equal as multisets. The DNS servers
  are compared position by position: the server task issues an update when the DNS
  servers read back differ from those of the spec, as a reordered list does, and none
  when the server read back differs from the desired one only in the order of its tags.
\<close>

theorem C6_tags_unordered_dns_ordered:
  "(equalCommonTags ta tb \<longleftrightarrow> length ta = length tb \<and> set ta \<subseteq> set tb) \<and>
   (mset ta = mset tb \<longrightarrow> equalCommonTags ta tb) \<and>
   (distinct ta \<longrightarrow> (equalCommonTags ta tb \<longleftrightarrow> mset ta = mset tb)) \<and>
   (cidrHostAndPrefix (WorkersNetwork spec) 2 = Inr dhcpServerIP \<and>
    cidrHost (WorkersNetwork spec) 1 = Inr gatewayIP \<and>
    ProfileID (AdvancedDHCP state) = Some profileId \<and>
    ServerID (AdvancedDHCP state) = Some serverId \<and>
    ReadDhcpServer a serverId = (oldServer, resp, None) \<and>
    \<not> respNotFound resp \<and>
    srv_Ipv4DhcpServer oldServer = Some old4 \<and>
    DnsNameservers old4 \<noteq> DNSServers spec \<longrightarrow>
      calls (advancedDHCPServerTask_Ensure a spec state log) =
        log @ [CallReadDhcpServer serverId,
               CallUpdateDhcpServer serverId
                 (desiredServer a spec profileId dhcpServerIP gatewayIP)]) \<and>
   (cidrHostAndPrefix (WorkersNetwork spec) 2 = Inr dhcpServerIP \<and>
    cidrHost (WorkersNetwork spec) 1 = Inr gatewayIP \<and>
    ProfileID (AdvancedDHCP state) = Some profileId \<and>
    ServerID (AdvancedDHCP state) = Some serverId \<and>
    ReadDhcpServer a' serverId = (oldServer', resp', None) \<and>
    \<not> respNotFound resp' \<and>
    srv_DisplayName oldServer' = FullClusterName spec \<and>
    srv_DhcpProfileId oldServer' = profileId \<and>
    srv_Ipv4DhcpServer oldServer' =
      Some \<lparr>DhcpServerIp = dhcpServerIP, DnsNameservers = DNSServers spec,
            GatewayIp = gatewayIP\<rparr> \<and>
    mset (srv_Tags oldServer') = mset (createCommonTags spec) \<longrightarrow>
      advancedDHCPServerTask_Ensure a' spec state log =
        (Return None, state, log @ [CallReadDhcpServer serverId]))"
proof (intro conjI impI; (elim conjE)?)
  show "equalCommonTags ta tb \<longleftrightarrow> length ta = length tb \<and> set ta \<subseteq> set tb"
    by (rule equalCommonTags_iff)
next
  assume "mset ta = mset tb"
  then show "equalCommonTags ta tb" by (rule equalCommonTags_mset)
next
  assume "distinct ta"
  then show "equalCommonTags ta tb \<longleftrightarrow> mset ta = mset tb"
    by (blast intro: equalCommonTags_mset equalCommonTags_distinct)
next
  assume h: "cidrHostAndPrefix (WorkersNetwork spec) 2 = Inr dhcpServerIP"
    "cidrHost (WorkersNetwork spec) 1 = Inr gatewayIP"
    "ProfileID (AdvancedDHCP state) = Some profileId"
    "ServerID (AdvancedDHCP state) = Some serverId"
    "ReadDhcpServer a serverId = (oldServer, resp, None)"
    "\<not> respNotFound resp"
    and dns: "srv_Ipv4DhcpServer oldServer = Some old4" "DnsNameservers old4 \<noteq> DNSServers spec"
  obtain u r e where
    "UpdateDhcpServer a serverId (desiredServer a spec profileId dhcpServerIP gatewayIP) = (u, r, e)"
    by (cases "UpdateDhcpServer a serverId (desiredServer a spec profileId dhcpServerIP gatewayIP)")
  from server_found [OF h this] dns
  show "calls (advancedDHCPServerTask_Ensure a spec state log) =
        log @ [CallReadDhcpServer serverId,
               CallUpdateDhcpServer serverId
                 (desiredServer a spec profileId dhcpServerIP gatewayIP)]"
    by (simp add: calls_def equalOrderedStrings_iff)
next
  assume "cidrHostAndPrefix (WorkersNetwork spec) 2 = Inr dhcpServerIP"
    "cidrHost (WorkersNetwork spec) 1 = Inr gatewayIP"
    "ProfileID (AdvancedDHCP state) = Some profileId"
    "ServerID (AdvancedDHCP state) = Some serverId"
    "ReadDhcpServer a' serverId = (oldServer', resp', None)"
    "\<not> respNotFound resp'"
    "srv_DisplayName oldServer' = FullClusterName spec"
    "srv_DhcpProfileId oldServer' = profileId"
    "srv_Ipv4DhcpServer oldServer' =
      Some \<lparr>DhcpServerIp = dhcpServerIP, DnsNameservers = DNSServers spec,
            GatewayIp = gatewayIP\<rparr>"
    "mset (srv_Tags oldServer') = mset (createCommonTags spec)"
  then show "advancedDHCPServerTask_Ensure a' spec state log =
        (Return None, state, log @ [CallReadDhcpServer serverId])"
    by (rule server_idempotent)
qed

theorem C6_tags_unordered_dns_ordered_witness:
  "(mset [\<lparr>Scope = ''cluster'', Tag = ''shoot--foo--bar''\<rparr>, \<lparr>Scope = ''owner'', Tag = ''gardener''\<rparr>]
      = mset (createCommonTags exampleSpec) \<and>
    distinct [\<lparr>Scope = ''cluster'', Tag = ''shoot--foo--bar''\<rparr>, \<lparr>Scope = ''owner'', Tag = ''gardener''\<rparr>] \<and>
    cidrHostAndPrefix (WorkersNetwork exampleSpec) 2 = Inr ''10.0.0.2/24'' \<and>
    cidrHost (WorkersNetwork exampleSpec) 1 = Inr ''10.0.0.1'' \<and>
    ProfileID (AdvancedDHCP (exampleState (Some ''ec-1'') (Some ''profile-1'') (Some ''server-1'')
      None None None)) = Some ''profile-1'' \<and>
    ServerID (AdvancedDHCP (exampleState (Some ''ec-1'') (Some ''profile-1'') (Some ''server-1'')
      None None None)) = Some ''server-1'' \<and>
    ReadDhcpServer exampleClientReorderedDNS ''server-1'' =
      (exampleServer\<lparr>srv_Id := ''server-1'',
         srv_Ipv4DhcpServer := Some \<lparr>DhcpServerIp = ''10.0.0.2/24'',
                                      DnsNameservers = [''1.1.1.1'', ''8.8.8.8''],
                                      GatewayIp = ''10.0.0.1''\<rparr>\<rparr>,
       Some \<lparr>StatusCode = 200\<rparr>, None) \<and>
    \<not> respNotFound (Some \<lparr>StatusCode = 200\<rparr>) \<and>
    [''1.1.1.1'', ''8.8.8.8''] \<noteq> DNSServers exampleSpec \<and>
    ReadDhcpServer exampleClientReorderedTags ''server-1'' =
      (exampleServer\<lparr>srv_Id := ''server-1'',
         srv_Tags := [\<lparr>Scope = ''cluster'', Tag = ''shoot--foo--bar''\<rparr>,
                      \<lparr>Scope = ''owner'', Tag = ''gardener''\<rparr>]\<rparr>,
       Some \<lparr>StatusCode = 200\<rparr>, None)) \<and>
   equalCommonTags
     [\<lparr>Scope = ''cluster'', Tag = ''shoot--foo--bar''\<rparr>, \<lparr>Scope = ''owner'', Tag = ''gardener''\<rparr>]
     (createCommonTags exampleSpec) \<and>
   calls (advancedDHCPServerTask_Ensure exampleClientReorderedDNS exampleSpec
     (exampleState (Some ''ec-1'') (Some ''profile-1'') (Some ''server-1'') None None None) [])
     = [CallReadDhcpServer ''server-1'', CallUpdateDhcpServer ''server-1'' exampleServer] \<and>
   advancedDHCPServerTask_Ensure exampleClientReorderedTags exampleSpec
     (exampleState (Some ''ec-1'') (Some ''profile-1'') (Some ''server-1'') None None None) []
     = (Return None,
        exampleState (Some ''ec-1'') (Some ''profile-1'') (Some ''server-1'') None None None,
        [CallReadDhcpServer ''server-1''])"
proof -
  let ?st = "exampleState (Some ''ec-1'') (Some ''profile-1'') (Some ''server-1'') None None None"
  let ?tags = "[\<lparr>Scope = ''cluster'', Tag = ''shoot--foo--bar''\<rparr>,
                \<lparr>Scope = ''owner'', Tag = ''gardener''\<rparr>]"
  let ?old4 = "\<lparr>DhcpServerIp = ''10.0.0.2/24'', DnsNameservers = [''1.1.1.1'', ''8.8.8.8''],
                GatewayIp = ''10.0.0.1''\<rparr>"
  let ?oldDNS = "exampleServer\<lparr>srv_Id := ''server-1'', srv_Ipv4DhcpServer := Some ?old4\<rparr>"
  let ?oldTags = "exampleServer\<lparr>srv_Id := ''server-1'', srv_Tags := ?tags\<rparr>"
  have tags: "mset ?tags = mset (createCommonTags exampleSpec)" "distinct ?tags"
    by (simp_all add: exampleSpec_def)
  have ids: "ProfileID (AdvancedDHCP ?st) = Some ''profile-1''"
    "ServerID (AdvancedDHCP ?st) = Some ''server-1''"
    by (simp_all add: exampleState_def)
  have rd: "ReadDhcpServer exampleClientReorderedDNS ''server-1''
              = (?oldDNS, Some \<lparr>StatusCode = 200\<rparr>, None)"
    "ReadDhcpServer exampleClientReorderedTags ''server-1''
              = (?oldTags, Some \<lparr>StatusCode = 200\<rparr>, None)"
    by (simp_all add: exampleClientReorderedDNS_def exampleClientReorderedTags_def)
  have nf: "\<not> respNotFound (Some \<lparr>StatusCode = 200\<rparr>)"
    by (simp add: respNotFound_def StatusNotFound_def)
  have old:
    "srv_Ipv4DhcpServer ?oldDNS = Some ?old4"
    "DnsNameservers ?old4 \<noteq> DNSServers exampleSpec"
    "[''1.1.1.1'', ''8.8.8.8''] \<noteq> DNSServers exampleSpec"
    "srv_DisplayName ?oldTags = FullClusterName exampleSpec"
    "srv_DhcpProfileId ?oldTags = ''profile-1''"
    "srv_Ipv4DhcpServer ?oldTags =
       Some \<lparr>DhcpServerIp = ''10.0.0.2/24'', DnsNameservers = DNSServers exampleSpec,
             GatewayIp = ''10.0.0.1''\<rparr>"
    "mset (srv_Tags ?oldTags) = mset (createCommonTags exampleSpec)"
    by (simp_all add: exampleServer_def exampleSpec_def)
  have des: "desiredServer exampleClientReorderedDNS exampleSpec ''profile-1'' ''10.0.0.2/24''
               ''10.0.0.1'' = exampleServer"
    by (simp add: exampleClientReorderedDNS_def desiredServer_def exampleServer_def
          exampleSpec_def exampleClient_def)
  show ?thesis
    using C6_tags_unordered_dns_ordered
            [where ta = "?tags" and tb = "createCommonTags exampleSpec" and spec = exampleSpec
               and state = "?st" and log = "[]"
               and a = exampleClientReorderedDNS and a' = exampleClientReorderedTags
               and dhcpServerIP = "''10.0.0.2/24''" and gatewayIP = "''10.0.0.1''"
               and profileId = "''profile-1''" and serverId = "''server-1''"
               and oldServer = "?oldDNS" and resp = "Some \<lparr>StatusCode = 200\<rparr>"
               and ?old4.0 = "?old4"
               and oldServer' = "?oldTags" and resp' = "Some \<lparr>StatusCode = 200\<rparr>"]
    by (simp only: tags ids rd nf old des exampleSpec_addresses simp_thms append_Nil) blast
qed

end
